theory Spec2Isabelle
  imports Main "HOL-Library.Word"
begin

unbundle bit_operations_syntax

section \<open>Go values\<close>

text \<open>
  The provider is built for platforms whose Go \<open>int\<close> has 64 bits (amd64, arm64), so
  \<open>int\<close>, \<open>int64\<close> and \<open>uint64\<close> are all 64-bit words and the conversions
  \<open>int(x)\<close> and \<open>int64(x)\<close> between them keep every bit. A Go \<open>error\<close> is
  modelled by the message that \<open>%s\<close> prints for it; a Go \<open>string\<close> is a list of bytes.
\<close>

type_synonym int64 = "64 word"
type_synonym go_int = "64 word"
type_synonym uint64 = "64 word"
type_synonym byte = "8 word"
type_synonym error = string

definition int_of_int64 :: "int64 \<Rightarrow> go_int" where
  "int_of_int64 x = x"

definition int64_of_int :: "go_int \<Rightarrow> int64" where
  "int64_of_int x = x"

subsection \<open>strings.Split with a one-byte separator\<close>

text \<open>
  \<open>strings.Split(s, "|")\<close> cuts \<open>s\<close> at every separator and returns the pieces
  between them, so the empty string gives one empty piece and a string without a
  separator gives itself.
\<close>

fun Split :: "string \<Rightarrow> char \<Rightarrow> string list" where
  "Split [] sep = [[]]"
| "Split (c # cs) sep =
     (if c = sep then [] # Split cs sep
      else (case Split cs sep of
              [] \<Rightarrow> [[c]]
            | p # ps \<Rightarrow> (c # p) # ps))"

subsection \<open>strconv.Atoi\<close>

text \<open>
  \<open>strconv.Atoi\<close> of the Go standard library, for a 64-bit \<open>int\<close>. A string of
  1 to 18 bytes takes the fast path: an optional sign, then every byte must be a decimal
  digit. Any other string goes through \<open>ParseInt(s, 10, 0)\<close>, which strips the sign
  and calls \<open>ParseUint\<close>; that loop looks at one byte at a time and returns at the
  first byte that is no digit (value 0, \<open>ErrSyntax\<close>) or at the first digit that
  overflows 64 bits (value \<open>1<<64 - 1\<close>, \<open>ErrRange\<close>), whichever comes first.
\<close>

datatype NumError = ErrSyntax | ErrRange

definition byte_of :: "char \<Rightarrow> byte" where
  "byte_of c = of_char c"

text \<open>The fast path's loop: \<open>ch -= '0'; if ch > 9 { syntax error }; n = n*10 + int(ch)\<close>.\<close>

fun atoi_digits :: "go_int \<Rightarrow> string \<Rightarrow> go_int option" where
  "atoi_digits n [] = Some n"
| "atoi_digits n (c # cs) =
     (let ch = byte_of c - byte_of CHR ''0'' in
      if ch > 9 then None
      else atoi_digits (n * 10 + ucast ch) cs)"

definition lower :: "byte \<Rightarrow> byte" where
  "lower c = c OR (byte_of CHR ''x'' - byte_of CHR ''X'')"

definition maxUint64 :: uint64 where
  "maxUint64 = 18446744073709551615"

text \<open>
  The loop of \<open>ParseUint(s, 10, 64)\<close>, with \<open>cutoff = maxUint64/10 + 1\<close> and
  \<open>maxVal = 1<<64 - 1\<close>.
\<close>

fun ParseUint_loop :: "uint64 \<Rightarrow> string \<Rightarrow> uint64 \<times> NumError option" where
  "ParseUint_loop n [] = (n, None)"
| "ParseUint_loop n (c # cs) =
     (let b = byte_of c in
      if byte_of CHR ''0'' \<le> b \<and> b \<le> byte_of CHR ''9'' then
        (let d = b - byte_of CHR ''0'' in
         if d \<ge> 10 then (0, Some ErrSyntax)
         else if n \<ge> maxUint64 div 10 + 1 then (maxUint64, Some ErrRange)
         else (let n10 = n * 10; n1 = n10 + ucast d in
               if n1 < n10 \<or> n1 > maxUint64 then (maxUint64, Some ErrRange)
               else ParseUint_loop n1 cs))
      else if byte_of CHR ''a'' \<le> lower b \<and> lower b \<le> byte_of CHR ''z'' then
        (let d = lower b - byte_of CHR ''a'' + 10 in
         if d \<ge> 10 then (0, Some ErrSyntax)
         else if n \<ge> maxUint64 div 10 + 1 then (maxUint64, Some ErrRange)
         else (let n10 = n * 10; n1 = n10 + ucast d in
               if n1 < n10 \<or> n1 > maxUint64 then (maxUint64, Some ErrRange)
               else ParseUint_loop n1 cs))
      else (0, Some ErrSyntax))"

definition ParseUint :: "string \<Rightarrow> uint64 \<times> NumError option" where
  "ParseUint s = (if s = [] then (0, Some ErrSyntax) else ParseUint_loop 0 s)"

definition ParseInt :: "string \<Rightarrow> int64 \<times> NumError option" where
  "ParseInt s0 =
     (if s0 = [] then (0, Some ErrSyntax)
      else
        (let neg = (hd s0 = CHR ''-'');
             s = (if hd s0 = CHR ''+'' then tl s0 else if hd s0 = CHR ''-'' then tl s0 else s0);
             (un, err) = ParseUint s in
         if err \<noteq> None \<and> err \<noteq> Some ErrRange then (0, err)
         else
           (let cutoff = (9223372036854775808 :: uint64) in
            if \<not> neg \<and> un \<ge> cutoff then (cutoff - 1, Some ErrRange)
            else if neg \<and> un > cutoff then (- cutoff, Some ErrRange)
            else (if neg then - un else un, None))))"

definition Atoi :: "string \<Rightarrow> go_int \<times> NumError option" where
  "Atoi s0 =
     (let sLen = length s0 in
      if 0 < sLen \<and> sLen < 19 then
        (let signed = (hd s0 = CHR ''-'' \<or> hd s0 = CHR ''+'');
             s = (if signed then tl s0 else s0) in
         if signed \<and> length s < 1 then (0, Some ErrSyntax)
         else
           (case atoi_digits 0 s of
              None \<Rightarrow> (0, Some ErrSyntax)
            | Some n \<Rightarrow> (if hd s0 = CHR ''-'' then - n else n, None)))
      else ParseInt s0)"

section \<open>The plugin framework's values\<close>

text \<open>
  An attribute value of the framework (\<open>types.String\<close>, \<open>types.Int64\<close>) is null,
  unknown or known; \<open>ValueString\<close> and \<open>ValueInt64\<close> give the zero value unless it
  is known.
\<close>

datatype tf_String = StringNull | StringUnknown | StringValue string

datatype tf_Int64 = Int64Null | Int64Unknown | Int64Value int64

fun ValueString :: "tf_String \<Rightarrow> string" where
  "ValueString (StringValue s) = s"
| "ValueString _ = []"

fun ValueInt64 :: "tf_Int64 \<Rightarrow> int64" where
  "ValueInt64 (Int64Value n) = n"
| "ValueInt64 _ = 0"

text \<open>
  Diagnostics: \<open>Append\<close> skips a diagnostic the list already contains, \<open>AddError\<close>
  appends an error, \<open>HasError\<close> looks for one.
\<close>

datatype Severity = SeverityError | SeverityWarning

datatype Diagnostic = Diagnostic (severity: Severity) (summary: string) (detail: string)

type_synonym Diagnostics = "Diagnostic list"

fun Append :: "Diagnostics \<Rightarrow> Diagnostics \<Rightarrow> Diagnostics" where
  "Append diags [] = diags"
| "Append diags (d # ds) = Append (if d \<in> set diags then diags else diags @ [d]) ds"

definition AddError :: "Diagnostics \<Rightarrow> string \<Rightarrow> string \<Rightarrow> Diagnostics" where
  "AddError diags s d = Append diags [Diagnostic SeverityError s d]"

definition HasError :: "Diagnostics \<Rightarrow> bool" where
  "HasError diags = list_ex (\<lambda>d. severity d = SeverityError) diags"

text \<open>
  \<open>req.Config\<close> and \<open>req.State\<close> are read with \<open>Get(ctx, &data)\<close>, which
  returns diagnostics and fills \<open>data\<close>. A response starts with no diagnostics;
  its \<open>State\<close> is \<open>None\<close> until \<open>State.Set\<close> is called. The model structs carry
  one field per attribute of their schema, so \<open>State.Set\<close> stores them and returns no
  diagnostics.
\<close>

record 'm tfsdk_data =
  Get_Diagnostics :: Diagnostics
  Get_data :: 'm

record 'm response =
  Diagnostics :: Diagnostics
  State :: "'m option"

definition State_Set :: "'m response \<Rightarrow> 'm \<Rightarrow> Diagnostics \<times> 'm response" where
  "State_Set resp data = ([], resp\<lparr>State := Some data\<rparr>)"

text \<open>\<open>SSMRemoteTunnelDataSourceModel\<close> of remote_tunnel_data_source.go (both halves).\<close>

record SSMRemoteTunnelDataSourceModel =
  Target :: tf_String
  RemoteHost :: tf_String
  RemotePort :: tf_Int64
  LocalPort :: tf_Int64
  LocalHost :: tf_String
  Region :: tf_String
  Id :: tf_String

text \<open>\<open>SSMRemoteTunnelResourceModel\<close> has the same fields and tags.\<close>

type_synonym SSMRemoteTunnelResourceModel = SSMRemoteTunnelDataSourceModel

text \<open>\<open>SSMRemoteTunnelDataSourceModel\<close> of ssm_remote_tunnel.go: no local host.\<close>

record SSMRemoteTunnelModel =
  ssm_Target :: tf_String
  ssm_RemoteHost :: tf_String
  ssm_RemotePort :: tf_Int64
  ssm_LocalPort :: tf_Int64
  ssm_Region :: tf_String
  ssm_Id :: tf_String

section \<open>The tunnel tracker, as its callers see it\<close>

text \<open>
  Modelled from the spec: the types \<open>TunnelTracker\<close> and \<open>TunnelInfo\<close> (package
  provider) are not among the sources. The callers read \<open>tracker.Tunnels[id]\<close>,
  \<open>tunnelInfo.ReadySignal\<close>, \<open>tunnelInfo.LocalPort\<close> and
  \<open>tunnelInfo.LocalHost\<close>; the other fields are those of the spec's data model.
  \<open>ReadySignal\<close> is the one-shot readiness channel: \<open>True\<close> once it is closed.
  \<open>Launches\<close> records every session launch the tracker has started.
\<close>

record TunnelRequest =
  req_Target :: string
  req_RemoteHost :: string
  req_RemotePort :: go_int
  req_LocalPort :: go_int
  req_Region :: string

datatype lifecycle = Starting | Ready | Failed

datatype TrackerError =
  AllocationError error | LaunchError error | CancellationError | NotFoundError

record TunnelInfo =
  Identity :: string
  Request :: TunnelRequest
  info_LocalHost :: string
  info_LocalPort :: go_int
  Lifecycle :: lifecycle
  ReadySignal :: bool
  Process :: "nat option"
  LastError :: "TrackerError option"

record TunnelTracker =
  Tunnels :: "string \<rightharpoonup> TunnelInfo"
  Launches :: "(string \<times> string \<times> string \<times> go_int \<times> go_int) list"

text \<open>A context: whether its \<open>Done\<close> channel is closed when it is looked at.\<close>

record Context =
  ctx_Done :: bool

section \<open>The adapter's collaborators\<close>

text \<open>
  The handlers call three things that are not in the sources: \<open>ports.FindOpenPort\<close>,
  the tracker's \<open>StartTunnel\<close> (which returns \<open>(tunnelInfo, err)\<close> to the
  remote_tunnel handlers and only \<open>err\<close> to the older ssm_remote_tunnel data source)
  and \<open>uuid.New\<close>. They are parameters of the model. The world holds the tracker the
  provider was configured with, the calls made so far to the allocator and the tracker,
  and how many UUIDs have been drawn; \<open>uuid_New env k\<close> is the k-th UUID drawn.
\<close>

datatype call =
  Call_FindOpenPort go_int go_int
| Call_StartTunnel string string string go_int go_int string

record world =
  tracker :: TunnelTracker
  calls :: "call list"
  uuid_count :: nat

record env =
  FindOpenPort :: "go_int \<Rightarrow> go_int \<Rightarrow> error + go_int"
  StartTunnel :: "TunnelTracker \<Rightarrow> Context \<Rightarrow> string \<Rightarrow> string \<Rightarrow> string \<Rightarrow> go_int \<Rightarrow> go_int
                    \<Rightarrow> string \<Rightarrow> (error + TunnelInfo) \<times> TunnelTracker"
  StartTunnel_legacy :: "TunnelTracker \<Rightarrow> Context \<Rightarrow> string \<Rightarrow> string \<Rightarrow> string \<Rightarrow> int64
                    \<Rightarrow> int64 \<Rightarrow> string \<Rightarrow> error option \<times> TunnelTracker"
  uuid_New :: "nat \<Rightarrow> string"

definition ports_FindOpenPort :: "env \<Rightarrow> world \<Rightarrow> go_int \<Rightarrow> go_int \<Rightarrow> (error + go_int) \<times> world" where
  "ports_FindOpenPort env w low high =
     (FindOpenPort env low high, w\<lparr>calls := calls w @ [Call_FindOpenPort low high]\<rparr>)"

definition tracker_StartTunnel ::
  "env \<Rightarrow> world \<Rightarrow> Context \<Rightarrow> string \<Rightarrow> string \<Rightarrow> string \<Rightarrow> go_int \<Rightarrow> go_int \<Rightarrow> string
     \<Rightarrow> (error + TunnelInfo) \<times> world" where
  "tracker_StartTunnel env w ctx ident target remoteHost remotePort localPort region =
     (let (r, t) = StartTunnel env (tracker w) ctx ident target remoteHost remotePort localPort region
      in (r, w\<lparr>tracker := t,
                calls := calls w @ [Call_StartTunnel ident target remoteHost remotePort localPort region]\<rparr>))"

definition tracker_StartTunnel_legacy ::
  "env \<Rightarrow> world \<Rightarrow> Context \<Rightarrow> string \<Rightarrow> string \<Rightarrow> string \<Rightarrow> int64 \<Rightarrow> int64 \<Rightarrow> string
     \<Rightarrow> error option \<times> world" where
  "tracker_StartTunnel_legacy env w ctx ident target remoteHost remotePort localPort region =
     (let (r, t) = StartTunnel_legacy env (tracker w) ctx ident target remoteHost remotePort localPort region
      in (r, w\<lparr>tracker := t,
                calls := calls w @ [Call_StartTunnel ident target remoteHost remotePort localPort region]\<rparr>))"

definition uuid_New_String :: "env \<Rightarrow> world \<Rightarrow> string \<times> world" where
  "uuid_New_String env w = (uuid_New env (uuid_count w), w\<lparr>uuid_count := Suc (uuid_count w)\<rparr>)"

section \<open>The remote_tunnel data source and resource\<close>

text \<open>
  remote_tunnel_data_source.go. Each handler reads its data, returns if that reported an
  error, takes the local port from the data or, when it is 0, from
  \<open>ports.FindOpenPort(16000, 26000)\<close>, calls \<open>StartTunnel\<close>, and on success
  stores the tunnel's local port and host. The resource's Create, Read and Update also
  overwrite \<open>data.Id\<close> with \<open>uuid.New().String()\<close> before storing.
\<close>

definition RemoteTunnelDataSource_Read ::
  "env \<Rightarrow> world \<Rightarrow> Context \<Rightarrow> SSMRemoteTunnelDataSourceModel tfsdk_data
     \<Rightarrow> SSMRemoteTunnelDataSourceModel response \<times> world" where
  "RemoteTunnelDataSource_Read env w ctx req_Config =
     (let data = Get_data req_Config;
          resp = \<lparr>Diagnostics = Append [] (Get_Diagnostics req_Config), State = None\<rparr>
      in
      if HasError (Diagnostics resp) then (resp, w)
      else
        (let port = int_of_int64 (ValueInt64 (LocalPort data)) in
         case (if port = 0 then ports_FindOpenPort env w 16000 26000 else (Inr port, w)) of
           (Inl err, w1) \<Rightarrow>
             (resp\<lparr>Diagnostics :=
                 AddError (Diagnostics resp) ''Failed to find open port'' (''Error: '' @ err)\<rparr>, w1)
         | (Inr port, w1) \<Rightarrow>
             (case tracker_StartTunnel env w1 ctx
                     (ValueString (Id data))
                     (ValueString (Target data))
                     (ValueString (RemoteHost data))
                     (int_of_int64 (ValueInt64 (RemotePort data)))
                     port
                     (ValueString (Region data)) of
                (Inl err, w2) \<Rightarrow>
                  (resp\<lparr>Diagnostics :=
                      AddError (Diagnostics resp) ''Failed to start remote tunnel'' (''Error: '' @ err)\<rparr>, w2)
              | (Inr tunnelInfo, w2) \<Rightarrow>
                  (let data = data\<lparr>LocalPort := Int64Value (int64_of_int (info_LocalPort tunnelInfo))\<rparr>;
                       data = data\<lparr>LocalHost := StringValue (info_LocalHost tunnelInfo)\<rparr>;
                       (diags, resp) = State_Set resp data
                   in (resp\<lparr>Diagnostics := Append (Diagnostics resp) diags\<rparr>, w2)))))"

definition RemoteTunnelResource_Create ::
  "env \<Rightarrow> world \<Rightarrow> Context \<Rightarrow> SSMRemoteTunnelDataSourceModel tfsdk_data
     \<Rightarrow> SSMRemoteTunnelDataSourceModel response \<times> world" where
  "RemoteTunnelResource_Create env w ctx req_Config =
     (let data = Get_data req_Config;
          resp = \<lparr>Diagnostics = Append [] (Get_Diagnostics req_Config), State = None\<rparr>
      in
      if HasError (Diagnostics resp) then (resp, w)
      else
        (let port = int_of_int64 (ValueInt64 (LocalPort data)) in
         case (if port = 0 then ports_FindOpenPort env w 16000 26000 else (Inr port, w)) of
           (Inl err, w1) \<Rightarrow>
             (resp\<lparr>Diagnostics :=
                 AddError (Diagnostics resp) ''Failed to find open port'' (''Error: '' @ err)\<rparr>, w1)
         | (Inr port, w1) \<Rightarrow>
             (case tracker_StartTunnel env w1 ctx
                     (ValueString (Id data))
                     (ValueString (Target data))
                     (ValueString (RemoteHost data))
                     (int_of_int64 (ValueInt64 (RemotePort data)))
                     port
                     (ValueString (Region data)) of
                (Inl err, w2) \<Rightarrow>
                  (resp\<lparr>Diagnostics :=
                      AddError (Diagnostics resp) ''Failed to start remote tunnel'' (''Error: '' @ err)\<rparr>, w2)
              | (Inr tunnelInfo, w2) \<Rightarrow>
                  (let (u, w3) = uuid_New_String env w2;
                       data = data\<lparr>Id := StringValue u\<rparr>;
                       data = data\<lparr>LocalPort := Int64Value (int64_of_int (info_LocalPort tunnelInfo))\<rparr>;
                       data = data\<lparr>LocalHost := StringValue (info_LocalHost tunnelInfo)\<rparr>;
                       (diags, resp) = State_Set resp data
                   in (resp\<lparr>Diagnostics := Append (Diagnostics resp) diags\<rparr>, w3)))))"

definition RemoteTunnelResource_Read ::
  "env \<Rightarrow> world \<Rightarrow> Context \<Rightarrow> SSMRemoteTunnelDataSourceModel tfsdk_data
     \<Rightarrow> SSMRemoteTunnelDataSourceModel response \<times> world" where
  "RemoteTunnelResource_Read env w ctx req_State =
     (let data = Get_data req_State;
          resp = \<lparr>Diagnostics = Append [] (Get_Diagnostics req_State), State = None\<rparr>
      in
      if HasError (Diagnostics resp) then (resp, w)
      else
        (let port = int_of_int64 (ValueInt64 (LocalPort data)) in
         case (if port = 0 then ports_FindOpenPort env w 16000 26000 else (Inr port, w)) of
           (Inl err, w1) \<Rightarrow>
             (resp\<lparr>Diagnostics :=
                 AddError (Diagnostics resp) ''Failed to find open port'' (''Error: '' @ err)\<rparr>, w1)
         | (Inr port, w1) \<Rightarrow>
             (case tracker_StartTunnel env w1 ctx
                     (ValueString (Id data))
                     (ValueString (Target data))
                     (ValueString (RemoteHost data))
                     (int_of_int64 (ValueInt64 (RemotePort data)))
                     port
                     (ValueString (Region data)) of
                (Inl err, w2) \<Rightarrow>
                  (resp\<lparr>Diagnostics :=
                      AddError (Diagnostics resp) ''Failed to start remote tunnel'' (''Error: '' @ err)\<rparr>, w2)
              | (Inr tunnelInfo, w2) \<Rightarrow>
                  (let (u, w3) = uuid_New_String env w2;
                       data = data\<lparr>Id := StringValue u\<rparr>;
                       data = data\<lparr>LocalPort := Int64Value (int64_of_int (info_LocalPort tunnelInfo))\<rparr>;
                       data = data\<lparr>LocalHost := StringValue (info_LocalHost tunnelInfo)\<rparr>;
                       (diags, resp) = State_Set resp data
                   in (resp\<lparr>Diagnostics := Append (Diagnostics resp) diags\<rparr>, w3)))))"

definition RemoteTunnelResource_Update ::
  "env \<Rightarrow> world \<Rightarrow> Context \<Rightarrow> SSMRemoteTunnelDataSourceModel tfsdk_data
     \<Rightarrow> SSMRemoteTunnelDataSourceModel response \<times> world" where
  "RemoteTunnelResource_Update env w ctx req_Config =
     (let data = Get_data req_Config;
          resp = \<lparr>Diagnostics = Append [] (Get_Diagnostics req_Config), State = None\<rparr>
      in
      if HasError (Diagnostics resp) then (resp, w)
      else
        (let port = int_of_int64 (ValueInt64 (LocalPort data)) in
         case (if port = 0 then ports_FindOpenPort env w 16000 26000 else (Inr port, w)) of
           (Inl err, w1) \<Rightarrow>
             (resp\<lparr>Diagnostics :=
                 AddError (Diagnostics resp) ''Failed to find open port'' (''Error: '' @ err)\<rparr>, w1)
         | (Inr port, w1) \<Rightarrow>
             (case tracker_StartTunnel env w1 ctx
                     (ValueString (Id data))
                     (ValueString (Target data))
                     (ValueString (RemoteHost data))
                     (int_of_int64 (ValueInt64 (RemotePort data)))
                     port
                     (ValueString (Region data)) of
                (Inl err, w2) \<Rightarrow>
                  (resp\<lparr>Diagnostics :=
                      AddError (Diagnostics resp) ''Failed to start remote tunnel'' (''Error: '' @ err)\<rparr>, w2)
              | (Inr tunnelInfo, w2) \<Rightarrow>
                  (let (u, w3) = uuid_New_String env w2;
                       data = data\<lparr>Id := StringValue u\<rparr>;
                       data = data\<lparr>LocalPort := Int64Value (int64_of_int (info_LocalPort tunnelInfo))\<rparr>;
                       data = data\<lparr>LocalHost := StringValue (info_LocalHost tunnelInfo)\<rparr>;
                       (diags, resp) = State_Set resp data
                   in (resp\<lparr>Diagnostics := Append (Diagnostics resp) diags\<rparr>, w3)))))"

text \<open>Delete reads the prior state and returns.\<close>

definition RemoteTunnelResource_Delete ::
  "env \<Rightarrow> world \<Rightarrow> Context \<Rightarrow> SSMRemoteTunnelDataSourceModel tfsdk_data
     \<Rightarrow> SSMRemoteTunnelDataSourceModel response \<times> world" where
  "RemoteTunnelResource_Delete env w ctx req_State =
     (let data = Get_data req_State;
          resp = \<lparr>Diagnostics = Append [] (Get_Diagnostics req_State), State = None\<rparr>
      in
      if HasError (Diagnostics resp) then (resp, w)
      else (resp, w))"

text \<open>
  ImportState splits the import ID at \<open>|\<close>, wants six parts, converts the two ports with
  \<open>strconv.Atoi\<close> (dropping its error) and stores the parts under a new UUID. The
  diagnostics that \<open>State.Set\<close> returns are dropped as well.
\<close>

definition RemoteTunnelResource_ImportState ::
  "env \<Rightarrow> world \<Rightarrow> Context \<Rightarrow> string \<Rightarrow> SSMRemoteTunnelResourceModel response \<times> world" where
  "RemoteTunnelResource_ImportState env w ctx req_ID =
     (let resp = \<lparr>Diagnostics = [], State = None\<rparr>;
          parts = Split req_ID CHR ''|''
      in
      if length parts \<noteq> 6 then
        (resp\<lparr>Diagnostics :=
            AddError (Diagnostics resp) ''Invalid import ID''
              ''Import ID must be in the format `target|remote_host|remote_port|local_port|local_host|region`''\<rparr>,
         w)
      else
        (let target = parts ! 0;
             remoteHost = parts ! 1;
             remotePort = parts ! 2;
             localPort = parts ! 3;
             localHost = parts ! 4;
             region = parts ! 5;
             (localPortInt, _) = Atoi localPort;
             (remotePortInt, _) = Atoi remotePort;
             (u, w1) = uuid_New_String env w;
             (_, resp) = State_Set resp
                \<lparr>Target = StringValue target,
                 RemoteHost = StringValue remoteHost,
                 RemotePort = Int64Value (int64_of_int remotePortInt),
                 LocalPort = Int64Value (int64_of_int localPortInt),
                 LocalHost = StringValue localHost,
                 Region = StringValue region,
                 Id = StringValue u\<rparr>
         in (resp, w1)))"

section \<open>The ssm_remote_tunnel data source\<close>

text \<open>
  ssm_remote_tunnel.go. Read ends in a \<open>select\<close> over the entry's \<open>ReadySignal\<close>
  and \<open>ctx.Done()\<close>. When both can be received from, the runtime picks one; when
  neither can, the goroutine sleeps until one can, or for ever. The scheduler says what
  the runtime picks and which channel, if any, is closed first later on.
\<close>

datatype select_case = case_ReadySignal | case_ctx_Done

record scheduler =
  pick :: select_case
  later :: "select_case option"

definition select_ReadySignal_Done :: "scheduler \<Rightarrow> TunnelInfo \<Rightarrow> Context \<Rightarrow> select_case option" where
  "select_ReadySignal_Done sch tunnelInfo ctx =
     (if ReadySignal tunnelInfo \<and> ctx_Done ctx then Some (pick sch)
      else if ReadySignal tunnelInfo then Some case_ReadySignal
      else if ctx_Done ctx then Some case_ctx_Done
      else later sch)"

text \<open>\<open>None\<close>: Read never returns.\<close>

definition SSMRemoteTunnelDataSource_Read ::
  "env \<Rightarrow> world \<Rightarrow> Context \<Rightarrow> scheduler \<Rightarrow> SSMRemoteTunnelModel tfsdk_data
     \<Rightarrow> (SSMRemoteTunnelModel response \<times> world) option" where
  "SSMRemoteTunnelDataSource_Read env w ctx sch req_Config =
     (let data = Get_data req_Config;
          resp = \<lparr>Diagnostics = Append [] (Get_Diagnostics req_Config), State = None\<rparr>
      in
      if HasError (Diagnostics resp) then Some (resp, w)
      else
        (let (err, w1) = tracker_StartTunnel_legacy env w ctx
                 (ValueString (ssm_Id data))
                 (ValueString (ssm_Target data))
                 (ValueString (ssm_RemoteHost data))
                 (ValueInt64 (ssm_RemotePort data))
                 (ValueInt64 (ssm_LocalPort data))
                 (ValueString (ssm_Region data));
             resp = (case err of
                       Some e \<Rightarrow> resp\<lparr>Diagnostics :=
                          AddError (Diagnostics resp) ''Failed to start remote tunnel'' (''Error: '' @ e)\<rparr>
                     | None \<Rightarrow> resp)
         in
         case Tunnels (tracker w1) (ValueString (ssm_Id data)) of
           None \<Rightarrow>
             Some (resp\<lparr>Diagnostics :=
                     AddError (Diagnostics resp) ''Tunnel not found''
                       ''The requested tunnel does not exist in the tracker.''\<rparr>, w1)
         | Some tunnelInfo \<Rightarrow>
             (case select_ReadySignal_Done sch tunnelInfo ctx of
                None \<Rightarrow> None
              | Some case_ReadySignal \<Rightarrow>
                  (let (diags, resp) = State_Set resp data
                   in Some (resp\<lparr>Diagnostics := Append (Diagnostics resp) diags\<rparr>, w1))
              | Some case_ctx_Done \<Rightarrow>
                  Some (resp\<lparr>Diagnostics :=
                          AddError (Diagnostics resp) ''Context cancelled or timed out''
                            ''The operation was cancelled or timed out before the tunnel became ready.''\<rparr>,
                        w1))))"

section \<open>The tracker's StartTunnel\<close>

text \<open>
  Modelled from the spec: what a call of \<open>StartTunnel\<close> gives one caller. The method
  is not among the sources, so it follows section 4.1 of the specification. A caller that
  finds a \<open>Starting\<close> entry is suspended on its readiness notification: \<open>Waits\<close>.
\<close>

datatype 'a outcome = Returns 'a | Waits

text \<open>
  Modelled from the spec: the contracts of the Port Allocator (section 4.3: a range gives
  a free port or an error) and of the Session Launcher (section 4.2: a destination and a
  local port give a running session, here its process and local host, or an error).
\<close>

type_synonym allocator = "go_int \<Rightarrow> go_int \<Rightarrow> error + go_int"

type_synonym launcher =
  "Context \<Rightarrow> string \<Rightarrow> string \<Rightarrow> string \<Rightarrow> go_int \<Rightarrow> go_int \<Rightarrow> error + nat \<times> string"

text \<open>
  Modelled from the spec: the entry that step 5 inserts for an identity, in state
  \<open>Starting\<close>, with no port bound and its readiness notification not fired.
\<close>

definition starting_entry :: "string \<Rightarrow> TunnelRequest \<Rightarrow> TunnelInfo" where
  "starting_entry ident req =
     \<lparr>Identity = ident, Request = req, info_LocalHost = [], info_LocalPort = 0,
      Lifecycle = Starting, ReadySignal = False, Process = None, LastError = None\<rparr>"

text \<open>Modelled from the spec: storing an entry in the registry under its identity.\<close>

definition put_entry :: "TunnelTracker \<Rightarrow> string \<Rightarrow> TunnelInfo \<Rightarrow> TunnelTracker" where
  "put_entry trk ident ti = trk\<lparr>Tunnels := (Tunnels trk)(ident \<mapsto> ti)\<rparr>"

text \<open>
  Modelled from the spec: steps 5 to 8 of section 4.1 for the caller that starts the
  tunnel. It inserts the \<open>Starting\<close> entry; takes the requested local port, or asks the
  allocator over [16000, 26000) when that is 0; on an allocation failure marks the entry
  \<open>Failed\<close>, fires readiness and returns the error without launching; otherwise launches
  one session (the launcher gives the process and the local host) and marks the entry
  \<open>Ready\<close> with the host and port, or \<open>Failed\<close> with the launcher's error, firing
  readiness either way.
\<close>

definition fresh_start ::
  "allocator \<Rightarrow> launcher \<Rightarrow> TunnelTracker \<Rightarrow> Context \<Rightarrow> string \<Rightarrow> TunnelRequest
     \<Rightarrow> (TrackerError + TunnelInfo) outcome \<times> TunnelTracker" where
  "fresh_start alloc launch trk ctx ident req =
     (let entry = starting_entry ident req;
          trk1 = put_entry trk ident entry
      in
      case (if req_LocalPort req \<noteq> 0 then Inr (req_LocalPort req) else alloc 16000 26000) of
        Inl e \<Rightarrow>
          (Returns (Inl (AllocationError e)),
           put_entry trk1 ident
             (entry\<lparr>Lifecycle := Failed, LastError := Some (AllocationError e), ReadySignal := True\<rparr>))
      | Inr port \<Rightarrow>
          (let trk2 = trk1\<lparr>Launches := Launches trk1 @
                  [(req_Target req, req_Region req, req_RemoteHost req, req_RemotePort req, port)]\<rparr>
           in
           case launch ctx (req_Target req) (req_Region req) (req_RemoteHost req)
                  (req_RemotePort req) port of
             Inl e \<Rightarrow>
               (Returns (Inl (LaunchError e)),
                put_entry trk2 ident
                  (entry\<lparr>Lifecycle := Failed, LastError := Some (LaunchError e), ReadySignal := True\<rparr>))
           | Inr (proc, host) \<Rightarrow>
               (let ready = entry\<lparr>info_LocalHost := host, info_LocalPort := port,
                                  Lifecycle := Ready, ReadySignal := True, Process := Some proc\<rparr>
                in (Returns (Inr ready), put_entry trk2 ident ready))))"

text \<open>
  Modelled from the spec: steps 1 to 4 of section 4.1. A \<open>Ready\<close> entry is returned as
  it is; a \<open>Starting\<close> entry makes the caller wait, or return a cancellation error when
  its context is already done; a \<open>Failed\<close> entry is evicted and the start made afresh;
  an unknown identity is started.
\<close>

definition TunnelTracker_StartTunnel ::
  "allocator \<Rightarrow> launcher \<Rightarrow> TunnelTracker \<Rightarrow> Context \<Rightarrow> string \<Rightarrow> TunnelRequest
     \<Rightarrow> (TrackerError + TunnelInfo) outcome \<times> TunnelTracker" where
  "TunnelTracker_StartTunnel alloc launch trk ctx ident req =
     (case Tunnels trk ident of
        None \<Rightarrow> fresh_start alloc launch trk ctx ident req
      | Some ti \<Rightarrow>
          (case Lifecycle ti of
             Ready \<Rightarrow> (Returns (Inr ti), trk)
           | Starting \<Rightarrow> (if ctx_Done ctx then Returns (Inl CancellationError) else Waits, trk)
           | Failed \<Rightarrow>
               fresh_start alloc launch (trk\<lparr>Tunnels := (Tunnels trk)(ident := None)\<rparr>) ctx ident req))"

text \<open>
  Modelled from the spec: a run of calls of \<open>StartTunnel\<close> for one identity, one after
  the other, each with its own context and request; the outcomes in order and the tracker
  after the last.
\<close>

fun StartTunnel_calls ::
  "allocator \<Rightarrow> launcher \<Rightarrow> TunnelTracker \<Rightarrow> string \<Rightarrow> (Context \<times> TunnelRequest) list
     \<Rightarrow> (TrackerError + TunnelInfo) outcome list \<times> TunnelTracker" where
  "StartTunnel_calls alloc launch trk ident [] = ([], trk)"
| "StartTunnel_calls alloc launch trk ident ((ctx, req) # rest) =
     (let (out, trk1) = TunnelTracker_StartTunnel alloc launch trk ctx ident req;
          (outs, trk2) = StartTunnel_calls alloc launch trk1 ident rest
      in (out # outs, trk2))"

text \<open>
  Modelled from the spec: the snapshots that the successful calls of such a run returned.
\<close>

fun successes :: "(TrackerError + TunnelInfo) outcome list \<Rightarrow> TunnelInfo list" where
  "successes [] = []"
| "successes (Returns (Inr ti) # outs) = ti # successes outs"
| "successes (_ # outs) = successes outs"

section \<open>Scenarios\<close>

text \<open>
  Concrete collaborators and inputs, after the scenarios of the specification's section 8
  and the repository's example configuration: an allocator that returns 18123 and one
  that finds no port, a launcher that reports ready on 127.0.0.1 and one that fails, and
  \<open>StartTunnel\<close> built from the tracker above. A caller left waiting returns when its
  context's deadline passes.
\<close>

fun error_text :: "TrackerError \<Rightarrow> error" where
  "error_text (AllocationError e) = e"
| "error_text (LaunchError e) = e"
| "error_text CancellationError = ''context canceled''"
| "error_text NotFoundError = ''tunnel not found''"

definition scenario_alloc :: allocator where
  "scenario_alloc low high = Inr 18123"

definition exhausted_alloc :: allocator where
  "exhausted_alloc low high = Inl ''no open port found''"

definition scenario_launch :: launcher where
  "scenario_launch ctx target region remoteHost remotePort localPort = Inr (1, ''127.0.0.1'')"

definition failing_launch :: launcher where
  "failing_launch ctx target region remoteHost remotePort localPort = Inl ''session exited''"

definition StartTunnel_of ::
  "allocator \<Rightarrow> launcher \<Rightarrow> TunnelTracker \<Rightarrow> Context \<Rightarrow> string \<Rightarrow> string \<Rightarrow> string \<Rightarrow> go_int
     \<Rightarrow> go_int \<Rightarrow> string \<Rightarrow> (error + TunnelInfo) \<times> TunnelTracker" where
  "StartTunnel_of alloc launch trk ctx ident target remoteHost remotePort localPort region =
     (case TunnelTracker_StartTunnel alloc launch trk ctx ident
             \<lparr>req_Target = target, req_RemoteHost = remoteHost, req_RemotePort = remotePort,
              req_LocalPort = localPort, req_Region = region\<rparr> of
        (Returns (Inr ti), t) \<Rightarrow> (Inr ti, t)
      | (Returns (Inl e), t) \<Rightarrow> (Inl (error_text e), t)
      | (Waits, t) \<Rightarrow> (Inl ''context deadline exceeded'', t))"

definition StartTunnel_legacy_of ::
  "allocator \<Rightarrow> launcher \<Rightarrow> TunnelTracker \<Rightarrow> Context \<Rightarrow> string \<Rightarrow> string \<Rightarrow> string \<Rightarrow> int64
     \<Rightarrow> int64 \<Rightarrow> string \<Rightarrow> error option \<times> TunnelTracker" where
  "StartTunnel_legacy_of alloc launch trk ctx ident target remoteHost remotePort localPort region =
     (case StartTunnel_of alloc launch trk ctx ident target remoteHost remotePort localPort region of
        (Inr ti, t) \<Rightarrow> (None, t)
      | (Inl e, t) \<Rightarrow> (Some e, t))"

definition uuid_of :: "nat \<Rightarrow> string" where
  "uuid_of k = ''uuid-'' @ replicate k CHR ''i''"

definition env_of :: "allocator \<Rightarrow> launcher \<Rightarrow> env" where
  "env_of alloc launch =
     \<lparr>FindOpenPort = alloc,
      StartTunnel = StartTunnel_of alloc launch,
      StartTunnel_legacy = StartTunnel_legacy_of alloc launch,
      uuid_New = uuid_of\<rparr>"

definition scenario_env :: env where
  "scenario_env = env_of scenario_alloc scenario_launch"

definition exhausted_env :: env where
  "exhausted_env = env_of exhausted_alloc scenario_launch"

definition failing_env :: env where
  "failing_env = env_of scenario_alloc failing_launch"

definition empty_tracker :: TunnelTracker where
  "empty_tracker = \<lparr>Tunnels = Map.empty, Launches = []\<rparr>"

definition empty_world :: world where
  "empty_world = \<lparr>tracker = empty_tracker, calls = [], uuid_count = 0\<rparr>"

definition background :: Context where
  "background = \<lparr>ctx_Done = False\<rparr>"

definition cancelled :: Context where
  "cancelled = \<lparr>ctx_Done = True\<rparr>"

text \<open>The RDS tunnel of examples/resources/awsssmtunnels_remote_tunnel/resource.tf.\<close>

definition rds_config :: "SSMRemoteTunnelDataSourceModel tfsdk_data" where
  "rds_config =
     \<lparr>Get_Diagnostics = [],
      Get_data = \<lparr>Target = StringValue ''i-123456789'',
                  RemoteHost = StringValue ''db.internal'',
                  RemotePort = Int64Value 5432,
                  LocalPort = Int64Value 17638,
                  LocalHost = StringUnknown,
                  Region = StringValue ''us-east-1'',
                  Id = StringUnknown\<rparr>\<rparr>"

text \<open>The same tunnel with no local port configured.\<close>

definition auto_config :: "SSMRemoteTunnelDataSourceModel tfsdk_data" where
  "auto_config =
     \<lparr>Get_Diagnostics = [],
      Get_data = \<lparr>Target = StringValue ''i-abc'',
                  RemoteHost = StringValue ''db.internal'',
                  RemotePort = Int64Value 5432,
                  LocalPort = Int64Null,
                  LocalHost = StringUnknown,
                  Region = StringValue ''us-east-1'',
                  Id = StringUnknown\<rparr>\<rparr>"

text \<open>A configuration with an empty target and host, remote port 0 and local port 70000.\<close>

definition unchecked_config :: "SSMRemoteTunnelDataSourceModel tfsdk_data" where
  "unchecked_config =
     \<lparr>Get_Diagnostics = [],
      Get_data = \<lparr>Target = StringValue [],
                  RemoteHost = StringValue [],
                  RemotePort = Int64Value 0,
                  LocalPort = Int64Value 70000,
                  LocalHost = StringUnknown,
                  Region = StringValue ''us-east-1'',
                  Id = StringUnknown\<rparr>\<rparr>"

text \<open>A configuration of the ssm_remote_tunnel data source.\<close>

definition ssm_config :: "SSMRemoteTunnelModel tfsdk_data" where
  "ssm_config =
     \<lparr>Get_Diagnostics = [],
      Get_data = \<lparr>ssm_Target = StringValue ''i-abc'',
                  ssm_RemoteHost = StringValue ''db.internal'',
                  ssm_RemotePort = Int64Value 5432,
                  ssm_LocalPort = Int64Value 17638,
                  ssm_Region = StringValue ''us-east-1'',
                  ssm_Id = StringValue ''t1''\<rparr>\<rparr>"

text \<open>The request of the specification's first scenario and a tracker holding it ready.\<close>

definition t1_request :: TunnelRequest where
  "t1_request =
     \<lparr>req_Target = ''i-abc'', req_RemoteHost = ''db.internal'', req_RemotePort = 5432,
      req_LocalPort = 0, req_Region = ''us-east-1''\<rparr>"

definition t1_ready :: TunnelInfo where
  "t1_ready =
     \<lparr>Identity = ''t1'', Request = t1_request, info_LocalHost = ''127.0.0.1'',
      info_LocalPort = 18123, Lifecycle = Ready, ReadySignal = True, Process = Some 1,
      LastError = None\<rparr>"

definition t1_tracker :: TunnelTracker where
  "t1_tracker =
     \<lparr>Tunnels = [''t1'' \<mapsto> t1_ready],
      Launches = [(''i-abc'', ''us-east-1'', ''db.internal'', 5432, 18123)]\<rparr>"

text \<open>
  A tracker whose \<open>StartTunnel\<close> refuses every request and leaves the registry as it
  is, a registry in which \<open>t1\<close> is still starting, and three schedulers.
\<close>

definition refusing_env :: env where
  "refusing_env =
     scenario_env\<lparr>StartTunnel_legacy :=
       (\<lambda>trk ctx ident target remoteHost remotePort localPort region.
          (Some ''no credentials'', trk))\<rparr>"

definition t1_starting_tracker :: TunnelTracker where
  "t1_starting_tracker =
     \<lparr>Tunnels = [''t1'' \<mapsto> starting_entry ''t1'' t1_request], Launches = []\<rparr>"

definition never_ready :: scheduler where
  "never_ready = \<lparr>pick = case_ReadySignal, later = None\<rparr>"

definition ready_first :: scheduler where
  "ready_first = \<lparr>pick = case_ReadySignal, later = Some case_ReadySignal\<rparr>"

definition done_first :: scheduler where
  "done_first = \<lparr>pick = case_ctx_Done, later = Some case_ctx_Done\<rparr>"

text \<open>What Create stores for the RDS tunnel, as the next Read finds it in the prior state.\<close>

definition stored_rds :: "SSMRemoteTunnelDataSourceModel tfsdk_data" where
  "stored_rds =
     \<lparr>Get_Diagnostics = [],
      Get_data = \<lparr>Target = StringValue ''i-123456789'',
                  RemoteHost = StringValue ''db.internal'',
                  RemotePort = Int64Value 5432,
                  LocalPort = Int64Value 17638,
                  LocalHost = StringValue ''127.0.0.1'',
                  Region = StringValue ''us-east-1'',
                  Id = StringValue ''uuid-''\<rparr>\<rparr>"

section \<open>Words of the specification\<close>

text \<open>
  The constraints the specification puts on a \<open>TunnelRequest\<close>: both ports are positive
  16-bit port numbers, target and remote host are not empty. Ports are read as the signed
  integers they are in Go.
\<close>

definition TunnelRequest_constraints :: "string \<Rightarrow> string \<Rightarrow> go_int \<Rightarrow> go_int \<Rightarrow> bool" where
  "TunnelRequest_constraints target remoteHost remotePort localPort =
     (0 < sint remotePort \<and> sint remotePort \<le> 65535 \<and>
      0 < sint localPort \<and> sint localPort \<le> 65535 \<and>
      target \<noteq> [] \<and> remoteHost \<noteq> [])"

text \<open>A numeric field: an optional sign, then one or more decimal digits.\<close>

definition is_digit :: "char \<Rightarrow> bool" where
  "is_digit c = (c \<in> set ''0123456789'')"

definition numeric :: "string \<Rightarrow> bool" where
  "numeric s =
     (let t = (if s \<noteq> [] \<and> (hd s = CHR ''+'' \<or> hd s = CHR ''-'') then tl s else s)
      in t \<noteq> [] \<and> list_all is_digit t)"

text \<open>The call of \<open>StartTunnel\<close> that the remote_tunnel handlers make for their data and a port.\<close>

definition start_call :: "SSMRemoteTunnelDataSourceModel \<Rightarrow> go_int \<Rightarrow> call" where
  "start_call data port =
     Call_StartTunnel (ValueString (Id data)) (ValueString (Target data))
       (ValueString (RemoteHost data)) (int_of_int64 (ValueInt64 (RemotePort data))) port
       (ValueString (Region data))"

text \<open>The four handlers of remote_tunnel_data_source.go that start a tunnel.\<close>

definition start_handlers ::
  "(env \<Rightarrow> world \<Rightarrow> Context \<Rightarrow> SSMRemoteTunnelDataSourceModel tfsdk_data
     \<Rightarrow> SSMRemoteTunnelDataSourceModel response \<times> world) list" where
  "start_handlers =
     [RemoteTunnelDataSource_Read, RemoteTunnelResource_Create,
      RemoteTunnelResource_Read, RemoteTunnelResource_Update]"

section \<open>Theorems\<close>

subsection \<open>Helpers\<close>

lemma length_Split: "length (Split s sep) = Suc (count_list s sep)"
  by (induction s) (auto split: list.splits)

text \<open>
  The resource's Create, Read and Update have the same body; Read takes its data from the
  prior state, the other two from the configuration.
\<close>

lemma Resource_Read_eq: "RemoteTunnelResource_Read = RemoteTunnelResource_Create"
  by (intro ext) (simp add: RemoteTunnelResource_Read_def RemoteTunnelResource_Create_def)

lemma Resource_Update_eq: "RemoteTunnelResource_Update = RemoteTunnelResource_Create"
  by (intro ext) (simp add: RemoteTunnelResource_Update_def RemoteTunnelResource_Create_def)

lemmas collab_defs = ports_FindOpenPort_def tracker_StartTunnel_def uuid_New_String_def
  State_Set_def int_of_int64_def int64_of_int_def tracker_StartTunnel_legacy_def

lemmas scenario_defs = scenario_env_def exhausted_env_def failing_env_def env_of_def
  scenario_alloc_def exhausted_alloc_def scenario_launch_def failing_launch_def
  StartTunnel_of_def StartTunnel_legacy_of_def uuid_of_def empty_tracker_def empty_world_def
  background_def cancelled_def rds_config_def auto_config_def unchecked_config_def ssm_config_def
  t1_request_def t1_ready_def t1_tracker_def
  TunnelTracker_StartTunnel_def fresh_start_def starting_entry_def put_entry_def

lemma HasError_AddError: "HasError (AddError diags s d)"
  by (force simp: AddError_def HasError_def list_ex_iff)

lemma in_start_handlers:
  "H \<in> set start_handlers \<longleftrightarrow>
     H = RemoteTunnelDataSource_Read \<or> H = RemoteTunnelResource_Create"
  by (auto simp: start_handlers_def Resource_Read_eq Resource_Update_eq)

lemma rds_config_ok: "\<not> HasError (Append [] (Get_Diagnostics rds_config))"
  by (simp add: rds_config_def HasError_def)

lemma auto_config_ok: "\<not> HasError (Append [] (Get_Diagnostics auto_config))"
  by (simp add: auto_config_def HasError_def)

lemma unchecked_config_ok: "\<not> HasError (Append [] (Get_Diagnostics unchecked_config))"
  by (simp add: unchecked_config_def HasError_def)

subsection \<open>The local port of a start request\<close>

text \<open>What the data source's Read and the resource's Create log, case by case.\<close>

lemma DataSource_Read_calls:
  assumes "\<not> HasError (Append [] (Get_Diagnostics req))"
  shows "calls (snd (RemoteTunnelDataSource_Read env w ctx req)) = calls w @
           (if ValueInt64 (LocalPort (Get_data req)) \<noteq> 0
            then [start_call (Get_data req) (ValueInt64 (LocalPort (Get_data req)))]
            else case FindOpenPort env 16000 26000 of
                   Inl e \<Rightarrow> [Call_FindOpenPort 16000 26000]
                 | Inr p \<Rightarrow> [Call_FindOpenPort 16000 26000, start_call (Get_data req) p])"
  using assms
  by (auto simp: RemoteTunnelDataSource_Read_def collab_defs start_call_def Let_def
           split: sum.splits prod.splits)

lemma Create_calls:
  assumes "\<not> HasError (Append [] (Get_Diagnostics req))"
  shows "calls (snd (RemoteTunnelResource_Create env w ctx req)) = calls w @
           (if ValueInt64 (LocalPort (Get_data req)) \<noteq> 0
            then [start_call (Get_data req) (ValueInt64 (LocalPort (Get_data req)))]
            else case FindOpenPort env 16000 26000 of
                   Inl e \<Rightarrow> [Call_FindOpenPort 16000 26000]
                 | Inr p \<Rightarrow> [Call_FindOpenPort 16000 26000, start_call (Get_data req) p])"
  using assms
  by (auto simp: RemoteTunnelResource_Create_def collab_defs start_call_def Let_def
           split: sum.splits prod.splits)

text \<open>
  Claim C3. Each of the four handlers that start a tunnel (the data source's Read and the
  resource's Create, Read and Update), once its data was read without an error, makes
  exactly these calls: when the local port in the data is not 0, one call of
  \<open>StartTunnel\<close> with that very port and no call of the allocator; when it is 0, first
  \<open>FindOpenPort(16000, 26000)\<close> and then, if that gave a port, \<open>StartTunnel\<close>
  with the port it gave.
\<close>

theorem start_request_local_port:
  assumes "\<not> HasError (Append [] (Get_Diagnostics req))"
  shows "\<forall>H \<in> set start_handlers.
           calls (snd (H env w ctx req)) = calls w @
             (if ValueInt64 (LocalPort (Get_data req)) \<noteq> 0
              then [start_call (Get_data req) (ValueInt64 (LocalPort (Get_data req)))]
              else case FindOpenPort env 16000 26000 of
                     Inl e \<Rightarrow> [Call_FindOpenPort 16000 26000]
                   | Inr p \<Rightarrow> [Call_FindOpenPort 16000 26000, start_call (Get_data req) p])"
proof
  fix H
  assume "H \<in> set start_handlers"
  then consider "H = RemoteTunnelDataSource_Read" | "H = RemoteTunnelResource_Create"
    unfolding in_start_handlers by blast
  then show "calls (snd (H env w ctx req)) = calls w @
             (if ValueInt64 (LocalPort (Get_data req)) \<noteq> 0
              then [start_call (Get_data req) (ValueInt64 (LocalPort (Get_data req)))]
              else case FindOpenPort env 16000 26000 of
                     Inl e \<Rightarrow> [Call_FindOpenPort 16000 26000]
                   | Inr p \<Rightarrow> [Call_FindOpenPort 16000 26000, start_call (Get_data req) p])"
  proof cases
    case 1
    then show ?thesis by (simp only: DataSource_Read_calls [OF assms])
  next
    case 2
    then show ?thesis by (simp only: Create_calls [OF assms])
  qed
qed

theorem start_request_local_port_witness:
  "\<not> HasError (Append [] (Get_Diagnostics rds_config)) \<and>
   \<not> HasError (Append [] (Get_Diagnostics auto_config)) \<and>
   calls (snd (RemoteTunnelResource_Create scenario_env empty_world background rds_config)) =
     [Call_StartTunnel [] ''i-123456789'' ''db.internal'' 5432 17638 ''us-east-1''] \<and>
   calls (snd (RemoteTunnelDataSource_Read scenario_env empty_world background auto_config)) =
     [Call_FindOpenPort 16000 26000,
      Call_StartTunnel [] ''i-abc'' ''db.internal'' 5432 18123 ''us-east-1''] \<and>
   calls (snd (RemoteTunnelResource_Update exhausted_env empty_world background auto_config)) =
     [Call_FindOpenPort 16000 26000]"
  using rds_config_ok auto_config_ok
    start_request_local_port [OF rds_config_ok, of scenario_env empty_world background]
    start_request_local_port [OF auto_config_ok, of scenario_env empty_world background]
    start_request_local_port [OF auto_config_ok, of exhausted_env empty_world background]
  by (simp add: start_handlers_def start_call_def int_of_int64_def
        rds_config_def auto_config_def scenario_env_def exhausted_env_def env_of_def
        scenario_alloc_def exhausted_alloc_def empty_world_def)

subsection \<open>A failed allocation\<close>

lemma DataSource_Read_allocation_fails:
  assumes "\<not> HasError (Append [] (Get_Diagnostics req))"
    and "ValueInt64 (LocalPort (Get_data req)) = 0"
    and "FindOpenPort env 16000 26000 = Inl e"
  shows "RemoteTunnelDataSource_Read env w ctx req =
         (\<lparr>Diagnostics = AddError (Append [] (Get_Diagnostics req))
                           ''Failed to find open port'' (''Error: '' @ e),
           State = None\<rparr>,
          w\<lparr>calls := calls w @ [Call_FindOpenPort 16000 26000]\<rparr>)"
  using assms
  by (simp add: RemoteTunnelDataSource_Read_def collab_defs Let_def)

lemma Create_allocation_fails:
  assumes "\<not> HasError (Append [] (Get_Diagnostics req))"
    and "ValueInt64 (LocalPort (Get_data req)) = 0"
    and "FindOpenPort env 16000 26000 = Inl e"
  shows "RemoteTunnelResource_Create env w ctx req =
         (\<lparr>Diagnostics = AddError (Append [] (Get_Diagnostics req))
                           ''Failed to find open port'' (''Error: '' @ e),
           State = None\<rparr>,
          w\<lparr>calls := calls w @ [Call_FindOpenPort 16000 26000]\<rparr>)"
  using assms
  by (simp add: RemoteTunnelResource_Create_def collab_defs Let_def)

text \<open>
  Claim C4. When the local port in the data is 0 and \<open>FindOpenPort(16000, 26000)\<close>
  fails with error \<open>e\<close>, each of the four handlers returns with the error diagnostic
  "Failed to find open port" carrying \<open>e\<close>, stores no state, and has made one call only,
  the one of the allocator: \<open>StartTunnel\<close> is not called and the tracker is as before.
\<close>

theorem allocation_failure_stops_the_start:
  assumes "\<not> HasError (Append [] (Get_Diagnostics req))"
    and "ValueInt64 (LocalPort (Get_data req)) = 0"
    and "FindOpenPort env 16000 26000 = Inl e"
  shows "\<forall>H \<in> set start_handlers.
           H env w ctx req =
             (\<lparr>Diagnostics = AddError (Append [] (Get_Diagnostics req))
                               ''Failed to find open port'' (''Error: '' @ e),
               State = None\<rparr>,
              w\<lparr>calls := calls w @ [Call_FindOpenPort 16000 26000]\<rparr>)
           \<and> HasError (Diagnostics (fst (H env w ctx req)))
           \<and> tracker (snd (H env w ctx req)) = tracker w"
proof
  fix H
  assume "H \<in> set start_handlers"
  then consider "H = RemoteTunnelDataSource_Read" | "H = RemoteTunnelResource_Create"
    unfolding in_start_handlers by blast
  then have "H env w ctx req =
             (\<lparr>Diagnostics = AddError (Append [] (Get_Diagnostics req))
                               ''Failed to find open port'' (''Error: '' @ e),
               State = None\<rparr>,
              w\<lparr>calls := calls w @ [Call_FindOpenPort 16000 26000]\<rparr>)"
  proof cases
    case 1
    then show ?thesis by (simp only: DataSource_Read_allocation_fails [OF assms])
  next
    case 2
    then show ?thesis by (simp only: Create_allocation_fails [OF assms])
  qed
  then show "H env w ctx req =
             (\<lparr>Diagnostics = AddError (Append [] (Get_Diagnostics req))
                               ''Failed to find open port'' (''Error: '' @ e),
               State = None\<rparr>,
              w\<lparr>calls := calls w @ [Call_FindOpenPort 16000 26000]\<rparr>)
           \<and> HasError (Diagnostics (fst (H env w ctx req)))
           \<and> tracker (snd (H env w ctx req)) = tracker w"
    by (simp add: HasError_AddError)
qed

theorem allocation_failure_stops_the_start_witness:
  "\<not> HasError (Append [] (Get_Diagnostics auto_config)) \<and>
   ValueInt64 (LocalPort (Get_data auto_config)) = 0 \<and>
   FindOpenPort exhausted_env 16000 26000 = Inl ''no open port found'' \<and>
   RemoteTunnelResource_Read exhausted_env empty_world background auto_config =
     (\<lparr>Diagnostics = [Diagnostic SeverityError ''Failed to find open port''
                        ''Error: no open port found''],
       State = None\<rparr>,
      empty_world\<lparr>calls := [Call_FindOpenPort 16000 26000]\<rparr>)"
proof -
  have z: "ValueInt64 (LocalPort (Get_data auto_config)) = 0"
    by (simp add: auto_config_def)
  have f: "FindOpenPort exhausted_env 16000 26000 = Inl ''no open port found''"
    by (simp add: exhausted_env_def env_of_def exhausted_alloc_def)
  show ?thesis
    using auto_config_ok z f
      allocation_failure_stops_the_start [OF auto_config_ok z f, of empty_world background]
    by (simp add: start_handlers_def AddError_def auto_config_def empty_world_def)
qed

subsection \<open>The identity that is stored\<close>

lemma Create_stores_new_uuid:
  assumes "RemoteTunnelResource_Create env w ctx req = (resp, w')"
    and "\<not> HasError (Diagnostics resp)"
  shows "\<exists>data. State resp = Some data
           \<and> Id data = StringValue (uuid_New env (uuid_count w))
           \<and> uuid_count w' = Suc (uuid_count w)"
  using assms
  by (auto simp: RemoteTunnelResource_Create_def collab_defs Let_def HasError_AddError
      split: sum.splits prod.splits if_splits)

lemma inj_uuid_of: "inj uuid_of"
proof (rule injI)
  fix j k
  assume "uuid_of j = uuid_of k"
  then have "length (replicate j CHR ''i'') = length (replicate k CHR ''i'')"
    by (simp add: uuid_of_def)
  then show "j = k" by simp
qed

lemma resource_handlers_eq:
  "H \<in> {RemoteTunnelResource_Create, RemoteTunnelResource_Read, RemoteTunnelResource_Update}
     \<Longrightarrow> H = RemoteTunnelResource_Create"
  by (auto simp: Resource_Read_eq Resource_Update_eq)

text \<open>
  Claim C5. When Create, Read or Update of the resource ends without an error, the state
  it stored holds as \<open>id\<close> the UUID drawn during this call, not the identity found
  in the configuration or the prior state, and one UUID is drawn per call. Given that
  \<open>uuid.New\<close> never returns the same UUID twice, the identity stored by any later
  successful call differs from the one stored before; in particular a call whose data
  holds the identity stored before replaces it by a different one.
\<close>

theorem stored_identity_is_a_new_uuid:
  assumes "H \<in> {RemoteTunnelResource_Create, RemoteTunnelResource_Read, RemoteTunnelResource_Update}"
    and "H' \<in> {RemoteTunnelResource_Create, RemoteTunnelResource_Read, RemoteTunnelResource_Update}"
    and "inj (uuid_New env)"
    and "H env w ctx req = (resp, w1)"
    and "\<not> HasError (Diagnostics resp)"
    and "uuid_count w1 \<le> uuid_count w'"
    and "H' env w' ctx' req' = (resp', w2)"
    and "\<not> HasError (Diagnostics resp')"
  shows "\<exists>data data'.
           State resp = Some data
         \<and> Id data = StringValue (uuid_New env (uuid_count w))
         \<and> uuid_count w1 = Suc (uuid_count w)
         \<and> State resp' = Some data'
         \<and> Id data' = StringValue (uuid_New env (uuid_count w'))
         \<and> uuid_count w2 = Suc (uuid_count w')
         \<and> Id data' \<noteq> Id data
         \<and> (Id (Get_data req') = Id data \<longrightarrow> Id data' \<noteq> Id (Get_data req'))"
proof -
  have c1: "RemoteTunnelResource_Create env w ctx req = (resp, w1)"
    using resource_handlers_eq [OF assms(1)] assms(4) by simp
  have c2: "RemoteTunnelResource_Create env w' ctx' req' = (resp', w2)"
    using resource_handlers_eq [OF assms(2)] assms(7) by simp
  obtain data where d: "State resp = Some data"
      "Id data = StringValue (uuid_New env (uuid_count w))"
      "uuid_count w1 = Suc (uuid_count w)"
    using Create_stores_new_uuid [OF c1 assms(5)] by blast
  obtain data' where d': "State resp' = Some data'"
      "Id data' = StringValue (uuid_New env (uuid_count w'))"
      "uuid_count w2 = Suc (uuid_count w')"
    using Create_stores_new_uuid [OF c2 assms(8)] by blast
  have "uuid_count w \<noteq> uuid_count w'"
    using d(3) assms(6) by simp
  then have "uuid_New env (uuid_count w') \<noteq> uuid_New env (uuid_count w)"
    using assms(3) by (auto dest: injD)
  then have "Id data' \<noteq> Id data"
    using d(2) d'(2) by simp
  then show ?thesis using d d' by auto
qed

lemma created_rds:
  "RemoteTunnelResource_Create scenario_env empty_world background rds_config =
     (\<lparr>Diagnostics = [], State = Some (Get_data stored_rds)\<rparr>,
      snd (RemoteTunnelResource_Create scenario_env empty_world background rds_config))"
  by (simp add: RemoteTunnelResource_Create_def scenario_defs collab_defs HasError_def Let_def
        stored_rds_def)

lemma read_back_rds:
  "fst (RemoteTunnelResource_Read scenario_env
          (snd (RemoteTunnelResource_Create scenario_env empty_world background rds_config))
          background stored_rds) =
     \<lparr>Diagnostics = [], State = Some ((Get_data stored_rds)\<lparr>Id := StringValue ''uuid-i''\<rparr>)\<rparr>"
  by (simp add: RemoteTunnelResource_Read_def RemoteTunnelResource_Create_def scenario_defs
        collab_defs HasError_def Let_def stored_rds_def)

theorem stored_identity_is_a_new_uuid_witness:
  "inj (uuid_New scenario_env) \<and>
   \<not> HasError (Diagnostics (fst
       (RemoteTunnelResource_Create scenario_env empty_world background rds_config))) \<and>
   \<not> HasError (Diagnostics (fst
       (RemoteTunnelResource_Read scenario_env
          (snd (RemoteTunnelResource_Create scenario_env empty_world background rds_config))
          background stored_rds))) \<and>
   (\<exists>data data'.
      State (fst (RemoteTunnelResource_Create scenario_env empty_world background rds_config))
        = Some data
      \<and> Get_data stored_rds = data
      \<and> Id data = StringValue ''uuid-''
      \<and> State (fst (RemoteTunnelResource_Read scenario_env
          (snd (RemoteTunnelResource_Create scenario_env empty_world background rds_config))
          background stored_rds)) = Some data'
      \<and> Id data' = StringValue ''uuid-i''
      \<and> Id data' \<noteq> Id (Get_data stored_rds))"
proof -
  have u: "inj (uuid_New scenario_env)"
    by (simp add: scenario_env_def env_of_def inj_uuid_of)
  have h: "RemoteTunnelResource_Create
             \<in> {RemoteTunnelResource_Create, RemoteTunnelResource_Read, RemoteTunnelResource_Update}"
       "RemoteTunnelResource_Read
             \<in> {RemoteTunnelResource_Create, RemoteTunnelResource_Read, RemoteTunnelResource_Update}"
    by simp_all
  have ok1: "\<not> HasError (Diagnostics (fst
       (RemoteTunnelResource_Create scenario_env empty_world background rds_config)))"
    by (subst created_rds) (simp add: HasError_def)
  have ok2: "\<not> HasError (Diagnostics (fst
       (RemoteTunnelResource_Read scenario_env
          (snd (RemoteTunnelResource_Create scenario_env empty_world background rds_config))
          background stored_rds)))"
    by (simp add: read_back_rds HasError_def)
  have s1: "State (fst (RemoteTunnelResource_Create scenario_env empty_world background rds_config))
              = Some (Get_data stored_rds)"
    by (subst created_rds) simp
  have i: "Id (Get_data stored_rds) = StringValue ''uuid-''"
    by (simp add: stored_rds_def)
  from stored_identity_is_a_new_uuid [OF h u surjective_pairing ok1 order_refl surjective_pairing ok2]
  obtain data data' where
    r: "State (fst (RemoteTunnelResource_Create scenario_env empty_world background rds_config))
          = Some data"
       "State (fst (RemoteTunnelResource_Read scenario_env
          (snd (RemoteTunnelResource_Create scenario_env empty_world background rds_config))
          background stored_rds)) = Some data'"
       "Id data' \<noteq> Id data"
    by blast
  have "data = Get_data stored_rds" using r(1) s1 by simp
  moreover have "Id data' = StringValue ''uuid-i''"
    using r(2) by (auto simp: read_back_rds)
  ultimately show ?thesis using u ok1 ok2 r i by simp
qed

subsection \<open>Delete\<close>

text \<open>
  Claim C7. Delete returns the world it was given: the tracker with its registry and
  session processes is unchanged and no collaborator is called. Its response carries the
  diagnostics of reading the prior state and no state.
\<close>

theorem Delete_leaves_the_tracker_alone:
  "snd (RemoteTunnelResource_Delete env w ctx req) = w
   \<and> tracker (snd (RemoteTunnelResource_Delete env w ctx req)) = tracker w
   \<and> calls (snd (RemoteTunnelResource_Delete env w ctx req)) = calls w
   \<and> fst (RemoteTunnelResource_Delete env w ctx req) =
       \<lparr>Diagnostics = Append [] (Get_Diagnostics req), State = None\<rparr>"
  by (simp add: RemoteTunnelResource_Delete_def Let_def)

theorem Delete_leaves_the_tracker_alone_witness:
  "Tunnels (tracker (snd (RemoteTunnelResource_Delete scenario_env
      \<lparr>tracker = t1_tracker, calls = [], uuid_count = 1\<rparr> background rds_config))) ''t1''
     = Some t1_ready
   \<and> Process t1_ready = Some 1
   \<and> calls (snd (RemoteTunnelResource_Delete scenario_env
      \<lparr>tracker = t1_tracker, calls = [], uuid_count = 1\<rparr> background rds_config)) = []"
  using Delete_leaves_the_tracker_alone [of scenario_env
      "\<lparr>tracker = t1_tracker, calls = [], uuid_count = 1\<rparr>" background rds_config]
  by (simp add: t1_tracker_def t1_ready_def)

subsection \<open>No validation of a request\<close>

text \<open>
  Against claim C8 as stated: the data source's Read hands a request with an empty target,
  an empty remote host, remote port 0 and local port 70000 to \<open>StartTunnel\<close> and
  reports no error.
\<close>

theorem unchecked_request_reaches_the_tracker:
  "\<not> TunnelRequest_constraints [] [] 0 70000 \<and>
   calls (snd (RemoteTunnelDataSource_Read scenario_env empty_world background unchecked_config))
     = [Call_StartTunnel [] [] [] 0 70000 ''us-east-1''] \<and>
   \<not> HasError (Diagnostics (fst
        (RemoteTunnelDataSource_Read scenario_env empty_world background unchecked_config)))"
  by (simp add: TunnelRequest_constraints_def RemoteTunnelDataSource_Read_def scenario_defs
        collab_defs HasError_def Let_def)

lemma DataSource_Read_passes_on:
  assumes "\<not> HasError (Append [] (Get_Diagnostics req))"
    and "(if ValueInt64 (LocalPort (Get_data req)) \<noteq> 0
          then Inr (ValueInt64 (LocalPort (Get_data req)))
          else FindOpenPort env 16000 26000) = Inr p"
  shows "last (calls (snd (RemoteTunnelDataSource_Read env w ctx req))) = start_call (Get_data req) p
       \<and> (HasError (Diagnostics (fst (RemoteTunnelDataSource_Read env w ctx req)))
            \<longleftrightarrow> isl (fst (StartTunnel env (tracker w) ctx
                   (ValueString (Id (Get_data req))) (ValueString (Target (Get_data req)))
                   (ValueString (RemoteHost (Get_data req))) (ValueInt64 (RemotePort (Get_data req)))
                   p (ValueString (Region (Get_data req))))))"
  using assms
  by (auto simp: RemoteTunnelDataSource_Read_def collab_defs start_call_def Let_def HasError_AddError
           split: sum.splits prod.splits if_splits)

lemma Create_passes_on:
  assumes "\<not> HasError (Append [] (Get_Diagnostics req))"
    and "(if ValueInt64 (LocalPort (Get_data req)) \<noteq> 0
          then Inr (ValueInt64 (LocalPort (Get_data req)))
          else FindOpenPort env 16000 26000) = Inr p"
  shows "last (calls (snd (RemoteTunnelResource_Create env w ctx req))) = start_call (Get_data req) p
       \<and> (HasError (Diagnostics (fst (RemoteTunnelResource_Create env w ctx req)))
            \<longleftrightarrow> isl (fst (StartTunnel env (tracker w) ctx
                   (ValueString (Id (Get_data req))) (ValueString (Target (Get_data req)))
                   (ValueString (RemoteHost (Get_data req))) (ValueInt64 (RemotePort (Get_data req)))
                   p (ValueString (Region (Get_data req))))))"
  using assms
  by (auto simp: RemoteTunnelResource_Create_def collab_defs start_call_def Let_def HasError_AddError
           split: sum.splits prod.splits if_splits)

text \<open>
  Claim C8, amended. The handlers check no value of a request. Once the data was read
  without an error and a local port is at hand (the one in the data when it is not 0,
  otherwise the one the allocator gave), each of the four handlers calls
  \<open>StartTunnel\<close> with identity, target, remote host, remote port and region exactly
  as they stand in the data, whatever they are, and reports an error exactly when
  \<open>StartTunnel\<close> returns one.
\<close>

theorem requests_are_passed_on_unchecked:
  assumes "\<not> HasError (Append [] (Get_Diagnostics req))"
    and "(if ValueInt64 (LocalPort (Get_data req)) \<noteq> 0
          then Inr (ValueInt64 (LocalPort (Get_data req)))
          else FindOpenPort env 16000 26000) = Inr p"
  shows "\<forall>H \<in> set start_handlers.
           last (calls (snd (H env w ctx req))) =
             Call_StartTunnel (ValueString (Id (Get_data req))) (ValueString (Target (Get_data req)))
               (ValueString (RemoteHost (Get_data req))) (ValueInt64 (RemotePort (Get_data req)))
               p (ValueString (Region (Get_data req)))
         \<and> (HasError (Diagnostics (fst (H env w ctx req)))
              \<longleftrightarrow> isl (fst (StartTunnel env (tracker w) ctx
                     (ValueString (Id (Get_data req))) (ValueString (Target (Get_data req)))
                     (ValueString (RemoteHost (Get_data req))) (ValueInt64 (RemotePort (Get_data req)))
                     p (ValueString (Region (Get_data req))))))"
proof
  fix H
  assume "H \<in> set start_handlers"
  then consider "H = RemoteTunnelDataSource_Read" | "H = RemoteTunnelResource_Create"
    unfolding in_start_handlers by blast
  then show "last (calls (snd (H env w ctx req))) =
             Call_StartTunnel (ValueString (Id (Get_data req))) (ValueString (Target (Get_data req)))
               (ValueString (RemoteHost (Get_data req))) (ValueInt64 (RemotePort (Get_data req)))
               p (ValueString (Region (Get_data req)))
         \<and> (HasError (Diagnostics (fst (H env w ctx req)))
              \<longleftrightarrow> isl (fst (StartTunnel env (tracker w) ctx
                     (ValueString (Id (Get_data req))) (ValueString (Target (Get_data req)))
                     (ValueString (RemoteHost (Get_data req))) (ValueInt64 (RemotePort (Get_data req)))
                     p (ValueString (Region (Get_data req))))))"
  proof cases
    case 1
    then show ?thesis
      using DataSource_Read_passes_on [OF assms, of w ctx]
      by (simp add: start_call_def int_of_int64_def)
  next
    case 2
    then show ?thesis
      using Create_passes_on [OF assms, of w ctx]
      by (simp add: start_call_def int_of_int64_def)
  qed
qed

theorem requests_are_passed_on_unchecked_witness:
  "\<not> HasError (Append [] (Get_Diagnostics unchecked_config)) \<and>
   last (calls (snd (RemoteTunnelResource_Create scenario_env empty_world background unchecked_config)))
     = Call_StartTunnel [] [] [] 0 70000 ''us-east-1'' \<and>
   \<not> HasError (Diagnostics (fst
        (RemoteTunnelResource_Create scenario_env empty_world background unchecked_config)))"
proof -
  have p: "(if ValueInt64 (LocalPort (Get_data unchecked_config)) \<noteq> 0
            then Inr (ValueInt64 (LocalPort (Get_data unchecked_config)))
            else FindOpenPort scenario_env 16000 26000) = Inr 70000"
    by (simp add: unchecked_config_def)
  show ?thesis
    using unchecked_config_ok
      requests_are_passed_on_unchecked [OF unchecked_config_ok p, of empty_world background]
    by (simp add: start_handlers_def unchecked_config_def scenario_defs Let_def)
qed

subsection \<open>Digits and strconv.Atoi\<close>

lemma byte_sub_le: "((b::8 word) - 48 \<le> 9) \<longleftrightarrow> (48 \<le> b \<and> b \<le> 57)"
  apply unat_arith
  apply auto
  done

lemma letter_no_digit: "(97::8 word) \<le> x \<Longrightarrow> x \<le> 122 \<Longrightarrow> x - 97 + 10 \<ge> 10"
  by unat_arith

lemma unat_byte_of: "unat (byte_of c) = of_char c"
proof -
  have "byte_of c = of_nat (of_char c)"
    by (simp add: byte_of_def of_nat_of_char)
  then have "unat (byte_of c) = (of_char c :: nat) mod 256"
    by (simp add: unat_of_nat)
  then show ?thesis by simp
qed

lemma of_char_digit_cases:
  fixes n :: nat
  assumes "48 \<le> n" "n \<le> 57"
  shows "n = 48 \<or> n = 49 \<or> n = 50 \<or> n = 51 \<or> n = 52 \<or> n = 53 \<or> n = 54 \<or> n = 55 \<or> n = 56 \<or> n = 57"
  using assms by presburger

lemma is_digit_iff: "is_digit c \<longleftrightarrow> 48 \<le> (of_char c :: nat) \<and> (of_char c :: nat) \<le> 57"
proof
  assume "is_digit c"
  then show "48 \<le> (of_char c :: nat) \<and> (of_char c :: nat) \<le> 57"
    by (auto simp: is_digit_def)
next
  assume r: "48 \<le> (of_char c :: nat) \<and> (of_char c :: nat) \<le> 57"
  have e: "\<And>d. (of_char c :: nat) = of_char d \<Longrightarrow> c = d"
    by (rule of_char_eqI)
  have "(of_char c :: nat) = of_char CHR ''0'' \<or> (of_char c :: nat) = of_char CHR ''1''
      \<or> (of_char c :: nat) = of_char CHR ''2'' \<or> (of_char c :: nat) = of_char CHR ''3''
      \<or> (of_char c :: nat) = of_char CHR ''4'' \<or> (of_char c :: nat) = of_char CHR ''5''
      \<or> (of_char c :: nat) = of_char CHR ''6'' \<or> (of_char c :: nat) = of_char CHR ''7''
      \<or> (of_char c :: nat) = of_char CHR ''8'' \<or> (of_char c :: nat) = of_char CHR ''9''"
    using of_char_digit_cases [of "of_char c"] r by simp
  then have "c = CHR ''0'' \<or> c = CHR ''1'' \<or> c = CHR ''2'' \<or> c = CHR ''3'' \<or> c = CHR ''4''
      \<or> c = CHR ''5'' \<or> c = CHR ''6'' \<or> c = CHR ''7'' \<or> c = CHR ''8'' \<or> c = CHR ''9''"
    by (simp only: of_char_eq_iff)
  then show "is_digit c"
    unfolding is_digit_def by (elim disjE) simp_all
qed


lemma digit_by_range:
  "(byte_of CHR ''0'' \<le> byte_of c \<and> byte_of c \<le> byte_of CHR ''9'') \<longleftrightarrow> is_digit c"
  by (simp add: word_le_nat_alt unat_byte_of is_digit_iff)

lemma byte_of_0: "byte_of CHR ''0'' = 48"
  by (simp add: byte_of_def)

lemma digit_by_sub: "(byte_of c - byte_of CHR ''0'' > 9) \<longleftrightarrow> \<not> is_digit c"
proof -
  have "(byte_of c - 48 \<le> 9) \<longleftrightarrow> is_digit c"
    using digit_by_range [of c] by (simp add: byte_sub_le byte_of_def)
  then show ?thesis by (simp add: byte_of_0 not_le [symmetric])
qed

lemma atoi_digits_None: "atoi_digits n s = None \<longleftrightarrow> \<not> list_all is_digit s"
proof (induction s arbitrary: n)
  case Nil
  then show ?case by simp
next
  case (Cons c cs)
  show ?case
  proof (cases "is_digit c")
    case True
    then have "\<not> byte_of c - byte_of CHR ''0'' > 9" by (simp add: digit_by_sub)
    then show ?thesis using True Cons.IH by (simp add: Let_def)
  next
    case False
    then have "byte_of c - byte_of CHR ''0'' > 9" by (simp add: digit_by_sub)
    then show ?thesis using False by (simp add: Let_def)
  qed
qed

lemma ParseUint_loop_not_digits:
  "\<not> list_all is_digit s \<Longrightarrow>
   ParseUint_loop n s = (0, Some ErrSyntax) \<or> ParseUint_loop n s = (maxUint64, Some ErrRange)"
proof (induction s arbitrary: n)
  case Nil
  then show ?case by simp
next
  case (Cons c cs)
  show ?case
  proof (cases "is_digit c")
    case True
    from True Cons.prems have "\<not> list_all is_digit cs" by simp
    then have "\<And>m. ParseUint_loop m cs = (0, Some ErrSyntax)
                  \<or> ParseUint_loop m cs = (maxUint64, Some ErrRange)"
      by (rule Cons.IH)
    then show ?thesis using True by (simp add: Let_def digit_by_range)
  next
    case False
    have a: "byte_of CHR ''a'' = 97" and z: "byte_of CHR ''z'' = 122"
      by (simp_all add: byte_of_def)
    show ?thesis
    proof (cases "97 \<le> lower (byte_of c) \<and> lower (byte_of c) \<le> 122")
      case True
      then have "lower (byte_of c) - 97 + 10 \<ge> 10"
        using letter_no_digit [of "lower (byte_of c)"] by simp
      then show ?thesis using False True by (simp add: Let_def digit_by_range a z)
    next
      case no: False
      then have "(97 \<le> lower (byte_of c) \<and> lower (byte_of c) \<le> 122) = False" by simp
      then show ?thesis using False by (auto simp: Let_def digit_by_range a z)
    qed
  qed
qed

lemma ParseInt_not_numeric:
  assumes "\<not> numeric s"
  shows "ParseInt s = (0, Some ErrSyntax)
       \<or> ParseInt s = (9223372036854775807, Some ErrRange)
       \<or> ParseInt s = (- 9223372036854775808, Some ErrRange)"
proof (cases "s = []")
  case True
  then show ?thesis by (simp add: ParseInt_def)
next
  case False
  define t where "t = (if hd s = CHR ''+'' then tl s else if hd s = CHR ''-'' then tl s else s)"
  have bad: "t = [] \<or> \<not> list_all is_digit t"
    using assms False by (auto simp: numeric_def t_def Let_def split: if_splits)
  have "ParseUint t = (0, Some ErrSyntax) \<or> ParseUint t = (maxUint64, Some ErrRange)"
    using bad ParseUint_loop_not_digits [of t 0] by (auto simp: ParseUint_def)
  then show ?thesis
    using False unfolding ParseInt_def t_def [symmetric]
    by (auto simp: Let_def maxUint64_def)
qed

lemma Atoi_short_signed:
  assumes "s \<noteq> []" and "length s < 19" and "hd s = CHR ''-'' \<or> hd s = CHR ''+''"
  shows "Atoi s =
           (if tl s = [] then (0, Some ErrSyntax)
            else case atoi_digits 0 (tl s) of
                   None \<Rightarrow> (0, Some ErrSyntax)
                 | Some n \<Rightarrow> (if hd s = CHR ''-'' then - n else n, None))"
proof -
  have l: "0 < length s \<and> length s < 19" using assms by simp
  have e: "(length (tl s) < 1) = (tl s = [])" by (cases "tl s") simp_all
  show ?thesis
    unfolding Atoi_def Let_def using l assms(3) by (simp only: e if_True simp_thms)
qed

lemma Atoi_short_unsigned:
  assumes "s \<noteq> []" and "length s < 19" and "\<not> (hd s = CHR ''-'' \<or> hd s = CHR ''+'')"
  shows "Atoi s =
           (case atoi_digits 0 s of
              None \<Rightarrow> (0, Some ErrSyntax)
            | Some n \<Rightarrow> (n, None))"
proof -
  have l: "0 < length s \<and> length s < 19" using assms by simp
  have m: "hd s \<noteq> CHR ''-''" using assms(3) by simp
  show ?thesis
    unfolding Atoi_def Let_def using l assms(3) m by (simp only: if_True if_False simp_thms)
qed

lemma Atoi_not_numeric_short:
  assumes "\<not> numeric s" and "length s < 19"
  shows "Atoi s = (0, Some ErrSyntax)"
proof (cases "s = []")
  case True
  then show ?thesis by (simp add: Atoi_def ParseInt_def)
next
  case False
  show ?thesis
  proof (cases "hd s = CHR ''-'' \<or> hd s = CHR ''+''")
    case True
    then have "tl s = [] \<or> \<not> list_all is_digit (tl s)"
      using assms(1) False by (auto simp: numeric_def Let_def)
    then have "tl s = [] \<or> atoi_digits 0 (tl s) = None"
      by (simp add: atoi_digits_None)
    then show ?thesis
      unfolding Atoi_short_signed [OF False assms(2) True] by auto
  next
    case no: False
    then have "\<not> list_all is_digit s"
      using assms(1) False by (auto simp: numeric_def Let_def)
    then have "atoi_digits 0 s = None"
      by (simp add: atoi_digits_None)
    then show ?thesis
      unfolding Atoi_short_unsigned [OF False assms(2) no] by simp
  qed
qed

lemma Atoi_not_numeric:
  assumes "\<not> numeric s"
  shows "Atoi s = (0, Some ErrSyntax)
       \<or> Atoi s = (9223372036854775807, Some ErrRange)
       \<or> Atoi s = (- 9223372036854775808, Some ErrRange)"
proof (cases "length s < 19")
  case True
  then show ?thesis using Atoi_not_numeric_short [OF assms] by simp
next
  case False
  then have "Atoi s = ParseInt s" by (simp add: Atoi_def Let_def)
  then show ?thesis using ParseInt_not_numeric [OF assms] by simp
qed


lemma ParseInt_syntax_zero:
  assumes "snd (ParseInt s) = Some ErrSyntax"
  shows "fst (ParseInt s) = 0"
proof (cases "s = []")
  case True
  then show ?thesis by (simp add: ParseInt_def)
next
  case False
  obtain un err where
    p: "ParseUint (if hd s = CHR ''+'' then tl s else if hd s = CHR ''-'' then tl s else s) = (un, err)"
    by (cases "ParseUint (if hd s = CHR ''+'' then tl s else if hd s = CHR ''-'' then tl s else s)")
  show ?thesis
  proof (cases "err \<noteq> None \<and> err \<noteq> Some ErrRange")
    case True
    then have "ParseInt s = (0, err)"
      using False p by (simp add: ParseInt_def Let_def)
    then show ?thesis by simp
  next
    case no: False
    then have "err = None \<or> err = Some ErrRange" by simp
    then have "snd (ParseInt s) \<noteq> Some ErrSyntax"
      using False p by (auto simp: ParseInt_def Let_def)
    with assms show ?thesis by simp
  qed
qed

lemma Atoi_syntax_zero:
  assumes "snd (Atoi s) = Some ErrSyntax"
  shows "fst (Atoi s) = 0"
proof (cases "s \<noteq> [] \<and> length s < 19")
  case False
  then have "Atoi s = ParseInt s" by (auto simp: Atoi_def Let_def)
  then show ?thesis using assms ParseInt_syntax_zero by simp
next
  case True
  then have ne: "s \<noteq> []" and short: "length s < 19" by simp_all
  show ?thesis
  proof (cases "hd s = CHR ''-'' \<or> hd s = CHR ''+''")
    case sg: True
    show ?thesis
      using assms unfolding Atoi_short_signed [OF ne short sg]
      by (simp split: if_splits option.splits)
  next
    case us: False
    show ?thesis
      using assms unfolding Atoi_short_unsigned [OF ne short us]
      by (simp split: option.splits)
  qed
qed

subsection \<open>ImportState\<close>

lemma ImportState_malformed:
  assumes "length (Split ID CHR ''|'') \<noteq> 6"
  shows "RemoteTunnelResource_ImportState env w ctx ID =
           (\<lparr>Diagnostics = [Diagnostic SeverityError ''Invalid import ID''
               ''Import ID must be in the format `target|remote_host|remote_port|local_port|local_host|region`''],
             State = None\<rparr>, w)"
  using assms by (simp add: RemoteTunnelResource_ImportState_def AddError_def Let_def)

lemma ImportState_six:
  assumes "length (Split ID CHR ''|'') = 6"
  shows "RemoteTunnelResource_ImportState env w ctx ID =
           (\<lparr>Diagnostics = [],
             State = Some
               \<lparr>Target = StringValue (Split ID CHR ''|'' ! 0),
                RemoteHost = StringValue (Split ID CHR ''|'' ! 1),
                RemotePort = Int64Value (fst (Atoi (Split ID CHR ''|'' ! 2))),
                LocalPort = Int64Value (fst (Atoi (Split ID CHR ''|'' ! 3))),
                LocalHost = StringValue (Split ID CHR ''|'' ! 4),
                Region = StringValue (Split ID CHR ''|'' ! 5),
                Id = StringValue (uuid_New env (uuid_count w))\<rparr>\<rparr>,
            w\<lparr>uuid_count := Suc (uuid_count w)\<rparr>)"
  using assms
  by (simp add: RemoteTunnelResource_ImportState_def collab_defs Let_def split_beta)

text \<open>
  Claim C6. ImportState reports an error exactly when splitting the import ID at \<open>|\<close>
  does not give six parts, that is, when the ID does not hold exactly five separators.
  Then the response carries the one diagnostic "Invalid import ID", no state is stored and
  the world is as it was: no UUID is drawn and the tracker is not touched. With six parts
  there is no diagnostic and the stored state holds them in order as target, remote host,
  remote port, local port, local host and region (the two ports as \<open>Atoi\<close> reads
  them) under a new UUID; the tracker is not called.
\<close>

theorem ImportState_wants_six_fields:
  assumes "parts = Split ID CHR ''|''"
    and "R = RemoteTunnelResource_ImportState env w ctx ID"
  shows "(length parts = 6 \<longleftrightarrow> count_list ID CHR ''|'' = 5)
       \<and> (HasError (Diagnostics (fst R)) \<longleftrightarrow> length parts \<noteq> 6)
       \<and> (length parts \<noteq> 6 \<longrightarrow>
            R = (\<lparr>Diagnostics = [Diagnostic SeverityError ''Invalid import ID''
                   ''Import ID must be in the format `target|remote_host|remote_port|local_port|local_host|region`''],
                  State = None\<rparr>, w))
       \<and> (length parts = 6 \<longrightarrow>
            Diagnostics (fst R) = []
            \<and> State (fst R) = Some
                 \<lparr>Target = StringValue (parts ! 0),
                  RemoteHost = StringValue (parts ! 1),
                  RemotePort = Int64Value (fst (Atoi (parts ! 2))),
                  LocalPort = Int64Value (fst (Atoi (parts ! 3))),
                  LocalHost = StringValue (parts ! 4),
                  Region = StringValue (parts ! 5),
                  Id = StringValue (uuid_New env (uuid_count w))\<rparr>
            \<and> tracker (snd R) = tracker w \<and> calls (snd R) = calls w)"
proof (cases "length parts = 6")
  case True
  then have "R = (\<lparr>Diagnostics = [],
             State = Some
               \<lparr>Target = StringValue (parts ! 0),
                RemoteHost = StringValue (parts ! 1),
                RemotePort = Int64Value (fst (Atoi (parts ! 2))),
                LocalPort = Int64Value (fst (Atoi (parts ! 3))),
                LocalHost = StringValue (parts ! 4),
                Region = StringValue (parts ! 5),
                Id = StringValue (uuid_New env (uuid_count w))\<rparr>\<rparr>,
            w\<lparr>uuid_count := Suc (uuid_count w)\<rparr>)"
    using ImportState_six [of ID env w ctx] assms by simp
  moreover have "count_list ID CHR ''|'' = 5"
    using True assms(1) by (simp add: length_Split)
  ultimately show ?thesis using True by (simp add: HasError_def)
next
  case False
  then have "R = (\<lparr>Diagnostics = [Diagnostic SeverityError ''Invalid import ID''
               ''Import ID must be in the format `target|remote_host|remote_port|local_port|local_host|region`''],
             State = None\<rparr>, w)"
    using ImportState_malformed [of ID env w ctx] assms by simp
  moreover have "count_list ID CHR ''|'' \<noteq> 5"
    using False assms(1) by (simp add: length_Split)
  ultimately show ?thesis using False by (simp add: HasError_def)
qed

lemma Split_example6:
  "Split ''i-abc|db.internal|5432|18123|127.0.0.1|us-east-1'' CHR ''|'' =
     [''i-abc'', ''db.internal'', ''5432'', ''18123'', ''127.0.0.1'', ''us-east-1'']"
  by simp

lemma Split_example5:
  "Split ''i-abc|db.internal|5432|18123|us-east-1'' CHR ''|'' =
     [''i-abc'', ''db.internal'', ''5432'', ''18123'', ''us-east-1'']"
  by simp

lemma Atoi_5432: "Atoi ''5432'' = (5432, None)"
  by (simp add: Atoi_def byte_of_def)

lemma Atoi_18123: "Atoi ''18123'' = (18123, None)"
  by (simp add: Atoi_def byte_of_def)

theorem ImportState_wants_six_fields_witness:
  "length (Split ''i-abc|db.internal|5432|18123|127.0.0.1|us-east-1'' CHR ''|'') = 6 \<and>
   fst (RemoteTunnelResource_ImportState scenario_env empty_world background
          ''i-abc|db.internal|5432|18123|127.0.0.1|us-east-1'') =
     \<lparr>Diagnostics = [],
      State = Some \<lparr>Target = StringValue ''i-abc'',
                    RemoteHost = StringValue ''db.internal'',
                    RemotePort = Int64Value 5432,
                    LocalPort = Int64Value 18123,
                    LocalHost = StringValue ''127.0.0.1'',
                    Region = StringValue ''us-east-1'',
                    Id = StringValue ''uuid-''\<rparr>\<rparr> \<and>
   length (Split ''i-abc|db.internal|5432|18123|us-east-1'' CHR ''|'') \<noteq> 6 \<and>
   RemoteTunnelResource_ImportState scenario_env empty_world background
          ''i-abc|db.internal|5432|18123|us-east-1'' =
     (\<lparr>Diagnostics = [Diagnostic SeverityError ''Invalid import ID''
         ''Import ID must be in the format `target|remote_host|remote_port|local_port|local_host|region`''],
       State = None\<rparr>, empty_world)"
proof -
  have a: "fst (RemoteTunnelResource_ImportState scenario_env empty_world background
          ''i-abc|db.internal|5432|18123|127.0.0.1|us-east-1'') =
     \<lparr>Diagnostics = [],
      State = Some \<lparr>Target = StringValue ''i-abc'',
                    RemoteHost = StringValue ''db.internal'',
                    RemotePort = Int64Value 5432,
                    LocalPort = Int64Value 18123,
                    LocalHost = StringValue ''127.0.0.1'',
                    Region = StringValue ''us-east-1'',
                    Id = StringValue ''uuid-''\<rparr>\<rparr>"
    using ImportState_wants_six_fields [OF refl refl, of
        "''i-abc|db.internal|5432|18123|127.0.0.1|us-east-1''" scenario_env empty_world background]
    unfolding Split_example6
    by (simp add: Atoi_5432 Atoi_18123 scenario_env_def env_of_def uuid_of_def empty_world_def
          response.equality)
  have b: "RemoteTunnelResource_ImportState scenario_env empty_world background
          ''i-abc|db.internal|5432|18123|us-east-1'' =
     (\<lparr>Diagnostics = [Diagnostic SeverityError ''Invalid import ID''
         ''Import ID must be in the format `target|remote_host|remote_port|local_port|local_host|region`''],
       State = None\<rparr>, empty_world)"
    using ImportState_wants_six_fields [OF refl refl, of
        "''i-abc|db.internal|5432|18123|us-east-1''" scenario_env empty_world background]
    unfolding Split_example5
    by simp
  show ?thesis
    unfolding Split_example6 Split_example5 using a b by simp
qed

lemma Split_overflow_example:
  "Split ''t|h|99999999999999999999x|1|l|r'' CHR ''|'' =
     [''t'', ''h'', ''99999999999999999999x'', ''1'', ''l'', ''r'']"
  by simp

lemma Atoi_overflow_example:
  "Atoi ''99999999999999999999x'' = (9223372036854775807, Some ErrRange)"
  by (simp add: Atoi_def ParseInt_def ParseUint_def byte_of_def maxUint64_def lower_def)

text \<open>
  Against claim C10 as stated: in the six-field ID \<open>t|h|99999999999999999999x|1|l|r\<close>
  the remote port field is not numeric, the import is accepted without a diagnostic, and
  the remote port stored is 9223372036854775807, not 0. \<open>ParseUint\<close> meets the
  overflow at the twentieth digit, before it reaches the \<open>x\<close>.
\<close>

theorem ImportState_non_numeric_port_not_zero:
  "\<not> numeric ''99999999999999999999x'' \<and>
   length (Split ''t|h|99999999999999999999x|1|l|r'' CHR ''|'') = 6 \<and>
   Split ''t|h|99999999999999999999x|1|l|r'' CHR ''|'' ! 2 = ''99999999999999999999x'' \<and>
   Diagnostics (fst (RemoteTunnelResource_ImportState scenario_env empty_world background
                       ''t|h|99999999999999999999x|1|l|r'')) = [] \<and>
   (\<exists>m. State (fst (RemoteTunnelResource_ImportState scenario_env empty_world background
                       ''t|h|99999999999999999999x|1|l|r'')) = Some m
        \<and> RemotePort m = Int64Value 9223372036854775807
        \<and> RemotePort m \<noteq> Int64Value 0)"
proof -
  have n: "\<not> numeric ''99999999999999999999x''"
    by (simp add: numeric_def is_digit_def)
  have six: "length (Split ''t|h|99999999999999999999x|1|l|r'' CHR ''|'') = 6"
    unfolding Split_overflow_example by simp
  show ?thesis
    using n unfolding ImportState_six [OF six] Split_overflow_example
    by (simp add: Atoi_overflow_example)
qed

text \<open>
  Claim C10, amended. ImportState does not check that the port fields of a six-field ID
  are numeric: there is no diagnostic, and each port is stored as the value \<open>Atoi\<close>
  returned, its error dropped. For a field that is not numeric \<open>Atoi\<close> always
  returns an error, and a value that is 0 exactly when the error is a syntax error, which
  it is for every such field shorter than 19 bytes; otherwise the value is the bound
  9223372036854775807 or -9223372036854775808 of a range error.
\<close>

theorem ImportState_drops_Atoi_errors:
  assumes "parts = Split ID CHR ''|''"
    and "length parts = 6"
    and "R = RemoteTunnelResource_ImportState env w ctx ID"
  shows "Diagnostics (fst R) = []
       \<and> (\<exists>m. State (fst R) = Some m
              \<and> RemotePort m = Int64Value (fst (Atoi (parts ! 2)))
              \<and> LocalPort m = Int64Value (fst (Atoi (parts ! 3))))
       \<and> (\<forall>f \<in> {parts ! 2, parts ! 3}. \<not> numeric f \<longrightarrow>
             snd (Atoi f) \<noteq> None
             \<and> fst (Atoi f) \<in> {0, 9223372036854775807, - 9223372036854775808}
             \<and> (fst (Atoi f) = 0 \<longleftrightarrow> snd (Atoi f) = Some ErrSyntax)
             \<and> (length f < 19 \<longrightarrow> Atoi f = (0, Some ErrSyntax)))"
proof -
  have stored: "Diagnostics (fst R) = []
       \<and> (\<exists>m. State (fst R) = Some m
              \<and> RemotePort m = Int64Value (fst (Atoi (parts ! 2)))
              \<and> LocalPort m = Int64Value (fst (Atoi (parts ! 3))))"
    using ImportState_six [of ID env w ctx] assms by (simp add: int64_of_int_def)
  have field: "snd (Atoi f) \<noteq> None
             \<and> fst (Atoi f) \<in> {0, 9223372036854775807, - 9223372036854775808}
             \<and> (fst (Atoi f) = 0 \<longleftrightarrow> snd (Atoi f) = Some ErrSyntax)
             \<and> (length f < 19 \<longrightarrow> Atoi f = (0, Some ErrSyntax))"
    if "\<not> numeric f" for f
  proof -
    have "Atoi f = (0, Some ErrSyntax)
        \<or> Atoi f = (9223372036854775807, Some ErrRange)
        \<or> Atoi f = (- 9223372036854775808, Some ErrRange)"
      using Atoi_not_numeric [OF that] .
    moreover have "length f < 19 \<longrightarrow> Atoi f = (0, Some ErrSyntax)"
      using Atoi_not_numeric_short [OF that] by simp
    ultimately show ?thesis by (elim disjE) simp_all
  qed
  show ?thesis using stored field by blast
qed

lemma Split_words_example:
  "Split ''i-abc|db.internal|http|auto|127.0.0.1|us-east-1'' CHR ''|'' =
     [''i-abc'', ''db.internal'', ''http'', ''auto'', ''127.0.0.1'', ''us-east-1'']"
  by simp

theorem ImportState_drops_Atoi_errors_witness:
  "length (Split ''i-abc|db.internal|http|auto|127.0.0.1|us-east-1'' CHR ''|'') = 6 \<and>
   \<not> numeric ''http'' \<and> \<not> numeric ''auto'' \<and>
   Diagnostics (fst (RemoteTunnelResource_ImportState scenario_env empty_world background
                       ''i-abc|db.internal|http|auto|127.0.0.1|us-east-1'')) = [] \<and>
   (\<exists>m. State (fst (RemoteTunnelResource_ImportState scenario_env empty_world background
                       ''i-abc|db.internal|http|auto|127.0.0.1|us-east-1'')) = Some m
        \<and> RemotePort m = Int64Value 0 \<and> LocalPort m = Int64Value 0) \<and>
   Atoi ''http'' = (0, Some ErrSyntax) \<and> Atoi ''auto'' = (0, Some ErrSyntax)"
proof -
  have six: "length (Split ''i-abc|db.internal|http|auto|127.0.0.1|us-east-1'' CHR ''|'') = 6"
    unfolding Split_words_example by simp
  have n: "\<not> numeric ''http''" "\<not> numeric ''auto''"
    by (simp_all add: numeric_def is_digit_def)
  show ?thesis
    using six n
      ImportState_drops_Atoi_errors [OF refl six refl, of scenario_env empty_world background]
    unfolding Split_words_example
    by auto
qed

subsection \<open>The older data source\<close>

text \<open>
  Claim C9. In the ssm_remote_tunnel data source, when \<open>StartTunnel\<close> returns an
  error, Read records the diagnostic "Failed to start remote tunnel" and goes on: it looks
  the identity up in the tracker's \<open>Tunnels\<close>. If there is no entry it adds "Tunnel
  not found" and returns without a state. If there is one, it waits in the
  \<open>select\<close>: when \<open>ReadySignal\<close> is received the state is set (the error
  diagnostic stays), when \<open>ctx.Done()\<close> is received it adds "Context cancelled or
  timed out" and returns without a state, and Read never returns exactly when neither
  channel is ready now nor ever becomes ready.
\<close>

theorem ssm_Read_goes_on_after_a_StartTunnel_error:
  assumes "\<not> HasError (Append [] (Get_Diagnostics req))"
    and "data = Get_data req"
    and "StartTunnel_legacy env (tracker w) ctx (ValueString (ssm_Id data))
           (ValueString (ssm_Target data)) (ValueString (ssm_RemoteHost data))
           (ValueInt64 (ssm_RemotePort data)) (ValueInt64 (ssm_LocalPort data))
           (ValueString (ssm_Region data)) = (Some e, t)"
    and "w1 = w\<lparr>tracker := t,
                  calls := calls w @ [Call_StartTunnel (ValueString (ssm_Id data))
                    (ValueString (ssm_Target data)) (ValueString (ssm_RemoteHost data))
                    (ValueInt64 (ssm_RemotePort data)) (ValueInt64 (ssm_LocalPort data))
                    (ValueString (ssm_Region data))]\<rparr>"
    and "diags1 = AddError (Append [] (Get_Diagnostics req))
                    ''Failed to start remote tunnel'' (''Error: '' @ e)"
  shows "HasError diags1
       \<and> SSMRemoteTunnelDataSource_Read env w ctx sch req =
           (case Tunnels t (ValueString (ssm_Id data)) of
              None \<Rightarrow>
                Some (\<lparr>Diagnostics = AddError diags1 ''Tunnel not found''
                          ''The requested tunnel does not exist in the tracker.'',
                        State = None\<rparr>, w1)
            | Some tunnelInfo \<Rightarrow>
                (case select_ReadySignal_Done sch tunnelInfo ctx of
                   None \<Rightarrow> None
                 | Some case_ReadySignal \<Rightarrow> Some (\<lparr>Diagnostics = diags1, State = Some data\<rparr>, w1)
                 | Some case_ctx_Done \<Rightarrow>
                     Some (\<lparr>Diagnostics = AddError diags1 ''Context cancelled or timed out''
                               ''The operation was cancelled or timed out before the tunnel became ready.'',
                             State = None\<rparr>, w1)))
       \<and> (\<forall>tunnelInfo. Tunnels t (ValueString (ssm_Id data)) = Some tunnelInfo \<longrightarrow>
             (SSMRemoteTunnelDataSource_Read env w ctx sch req = None
                \<longleftrightarrow> \<not> ReadySignal tunnelInfo \<and> \<not> ctx_Done ctx \<and> later sch = None))"
proof -
  have r: "SSMRemoteTunnelDataSource_Read env w ctx sch req =
           (case Tunnels t (ValueString (ssm_Id data)) of
              None \<Rightarrow>
                Some (\<lparr>Diagnostics = AddError diags1 ''Tunnel not found''
                          ''The requested tunnel does not exist in the tracker.'',
                        State = None\<rparr>, w1)
            | Some tunnelInfo \<Rightarrow>
                (case select_ReadySignal_Done sch tunnelInfo ctx of
                   None \<Rightarrow> None
                 | Some case_ReadySignal \<Rightarrow> Some (\<lparr>Diagnostics = diags1, State = Some data\<rparr>, w1)
                 | Some case_ctx_Done \<Rightarrow>
                     Some (\<lparr>Diagnostics = AddError diags1 ''Context cancelled or timed out''
                               ''The operation was cancelled or timed out before the tunnel became ready.'',
                             State = None\<rparr>, w1)))"
    using assms
    by (simp add: SSMRemoteTunnelDataSource_Read_def collab_defs Let_def
          split: option.splits select_case.splits)
  have s: "select_ReadySignal_Done sch tunnelInfo ctx = None
            \<longleftrightarrow> \<not> ReadySignal tunnelInfo \<and> \<not> ctx_Done ctx \<and> later sch = None"
    for tunnelInfo
    by (simp add: select_ReadySignal_Done_def)
  have b: "SSMRemoteTunnelDataSource_Read env w ctx sch req = None
            \<longleftrightarrow> \<not> ReadySignal tunnelInfo \<and> \<not> ctx_Done ctx \<and> later sch = None"
    if "Tunnels t (ValueString (ssm_Id data)) = Some tunnelInfo" for tunnelInfo
    unfolding r s [of tunnelInfo, symmetric] using that
    by (simp split: option.splits select_case.splits)
  have h: "HasError diags1" using assms(5) by (simp add: HasError_AddError)
  show ?thesis using h r b by blast
qed

lemma ssm_config_ok: "\<not> HasError (Append [] (Get_Diagnostics ssm_config))"
  by (simp add: ssm_config_def HasError_def)

theorem ssm_Read_goes_on_after_a_StartTunnel_error_witness:
  "\<not> HasError (Append [] (Get_Diagnostics ssm_config)) \<and>
   map_option fst (SSMRemoteTunnelDataSource_Read refusing_env empty_world background never_ready
                     ssm_config) =
     Some \<lparr>Diagnostics =
             [Diagnostic SeverityError ''Failed to start remote tunnel'' ''Error: no credentials'',
              Diagnostic SeverityError ''Tunnel not found''
                ''The requested tunnel does not exist in the tracker.''],
           State = None\<rparr> \<and>
   map_option fst (SSMRemoteTunnelDataSource_Read failing_env empty_world background never_ready
                     ssm_config) =
     Some \<lparr>Diagnostics =
             [Diagnostic SeverityError ''Failed to start remote tunnel'' ''Error: session exited''],
           State = Some (Get_data ssm_config)\<rparr> \<and>
   map_option fst (SSMRemoteTunnelDataSource_Read refusing_env
                     \<lparr>tracker = t1_starting_tracker, calls = [], uuid_count = 0\<rparr> cancelled
                     never_ready ssm_config) =
     Some \<lparr>Diagnostics =
             [Diagnostic SeverityError ''Failed to start remote tunnel'' ''Error: no credentials'',
              Diagnostic SeverityError ''Context cancelled or timed out''
                ''The operation was cancelled or timed out before the tunnel became ready.''],
           State = None\<rparr> \<and>
   SSMRemoteTunnelDataSource_Read refusing_env
     \<lparr>tracker = t1_starting_tracker, calls = [], uuid_count = 0\<rparr> background
     never_ready ssm_config = None"
proof -
  have refuse: "StartTunnel_legacy refusing_env trk ctx ident target remoteHost remotePort localPort region
                  = (Some ''no credentials'', trk)"
    for trk ctx ident target remoteHost remotePort localPort region
    by (simp add: refusing_env_def)
  have fail: "StartTunnel_legacy failing_env (tracker empty_world) background
                 (ValueString (ssm_Id (Get_data ssm_config)))
                 (ValueString (ssm_Target (Get_data ssm_config)))
                 (ValueString (ssm_RemoteHost (Get_data ssm_config)))
                 (ValueInt64 (ssm_RemotePort (Get_data ssm_config)))
                 (ValueInt64 (ssm_LocalPort (Get_data ssm_config)))
                 (ValueString (ssm_Region (Get_data ssm_config)))
               = (Some ''session exited'',
                  snd (StartTunnel_legacy failing_env (tracker empty_world) background
                 (ValueString (ssm_Id (Get_data ssm_config)))
                 (ValueString (ssm_Target (Get_data ssm_config)))
                 (ValueString (ssm_RemoteHost (Get_data ssm_config)))
                 (ValueInt64 (ssm_RemotePort (Get_data ssm_config)))
                 (ValueInt64 (ssm_LocalPort (Get_data ssm_config)))
                 (ValueString (ssm_Region (Get_data ssm_config)))))"
    by (simp add: scenario_defs Let_def)
  have failed_entry:
    "\<exists>ti. Tunnels (snd (StartTunnel_legacy failing_env (tracker empty_world) background
                 (ValueString (ssm_Id (Get_data ssm_config)))
                 (ValueString (ssm_Target (Get_data ssm_config)))
                 (ValueString (ssm_RemoteHost (Get_data ssm_config)))
                 (ValueInt64 (ssm_RemotePort (Get_data ssm_config)))
                 (ValueInt64 (ssm_LocalPort (Get_data ssm_config)))
                 (ValueString (ssm_Region (Get_data ssm_config)))))
               (ValueString (ssm_Id (Get_data ssm_config))) = Some ti \<and> ReadySignal ti"
    by (simp add: scenario_defs Let_def)
  have a: "map_option fst (SSMRemoteTunnelDataSource_Read refusing_env empty_world background
                     never_ready ssm_config) =
     Some \<lparr>Diagnostics =
             [Diagnostic SeverityError ''Failed to start remote tunnel'' ''Error: no credentials'',
              Diagnostic SeverityError ''Tunnel not found''
                ''The requested tunnel does not exist in the tracker.''],
           State = None\<rparr>"
    using ssm_Read_goes_on_after_a_StartTunnel_error [OF ssm_config_ok refl refuse refl refl,
        of empty_world background never_ready]
    by (simp add: empty_world_def empty_tracker_def ssm_config_def AddError_def)
  have b: "map_option fst (SSMRemoteTunnelDataSource_Read failing_env empty_world background
                     never_ready ssm_config) =
     Some \<lparr>Diagnostics =
             [Diagnostic SeverityError ''Failed to start remote tunnel'' ''Error: session exited''],
           State = Some (Get_data ssm_config)\<rparr>"
    using failed_entry
      ssm_Read_goes_on_after_a_StartTunnel_error [OF ssm_config_ok refl fail refl refl,
        of never_ready]
    by (auto simp: select_ReadySignal_Done_def background_def AddError_def ssm_config_def)
  have c: "map_option fst (SSMRemoteTunnelDataSource_Read refusing_env
                     \<lparr>tracker = t1_starting_tracker, calls = [], uuid_count = 0\<rparr> cancelled
                     never_ready ssm_config) =
     Some \<lparr>Diagnostics =
             [Diagnostic SeverityError ''Failed to start remote tunnel'' ''Error: no credentials'',
              Diagnostic SeverityError ''Context cancelled or timed out''
                ''The operation was cancelled or timed out before the tunnel became ready.''],
           State = None\<rparr>"
    using ssm_Read_goes_on_after_a_StartTunnel_error [OF ssm_config_ok refl refuse refl refl,
        of "\<lparr>tracker = t1_starting_tracker, calls = [], uuid_count = 0\<rparr>" cancelled never_ready]
    by (simp add: t1_starting_tracker_def starting_entry_def ssm_config_def AddError_def
          select_ReadySignal_Done_def cancelled_def)
  have d: "SSMRemoteTunnelDataSource_Read refusing_env
     \<lparr>tracker = t1_starting_tracker, calls = [], uuid_count = 0\<rparr> background
     never_ready ssm_config = None"
    using ssm_Read_goes_on_after_a_StartTunnel_error [OF ssm_config_ok refl refuse refl refl,
        of "\<lparr>tracker = t1_starting_tracker, calls = [], uuid_count = 0\<rparr>" background never_ready]
    by (simp add: t1_starting_tracker_def starting_entry_def ssm_config_def
          select_ReadySignal_Done_def background_def never_ready_def)
  show ?thesis using ssm_config_ok a b c d by simp
qed


subsection \<open>A ready tunnel\<close>

lemma StartTunnel_Ready:
  "Tunnels trk ident = Some ti \<Longrightarrow> Lifecycle ti = Ready \<Longrightarrow>
   TunnelTracker_StartTunnel alloc launch trk ctx ident req = (Returns (Inr ti), trk)"
  by (simp add: TunnelTracker_StartTunnel_def)

lemma fresh_start_success:
  "fresh_start alloc launch trk ctx ident req = (Returns (Inr ti), trk') \<Longrightarrow>
   Tunnels trk' ident = Some ti \<and> Lifecycle ti = Ready"
  by (auto simp: fresh_start_def put_entry_def starting_entry_def Let_def
           split: sum.splits prod.splits if_splits)

lemma StartTunnel_success:
  "TunnelTracker_StartTunnel alloc launch trk ctx ident req = (Returns (Inr ti), trk') \<Longrightarrow>
   Tunnels trk' ident = Some ti \<and> Lifecycle ti = Ready"
  by (auto simp: TunnelTracker_StartTunnel_def dest: fresh_start_success
           split: option.splits lifecycle.splits if_splits)

lemma StartTunnel_calls_Ready:
  "Tunnels trk ident = Some ti \<Longrightarrow> Lifecycle ti = Ready \<Longrightarrow>
   StartTunnel_calls alloc launch trk ident cs = (replicate (length cs) (Returns (Inr ti)), trk)"
  by (induction cs) (auto simp: StartTunnel_Ready)

lemma successes_replicate: "successes (replicate n (Returns (Inr ti))) = replicate n ti"
  by (induction n) auto

lemma successes_agree:
  "StartTunnel_calls alloc launch trk ident cs = (outs, trk') \<Longrightarrow>
   a \<in> set (successes outs) \<Longrightarrow> b \<in> set (successes outs) \<Longrightarrow> a = b"
proof (induction cs arbitrary: trk outs)
  case Nil
  then show ?case by simp
next
  case (Cons c cs)
  obtain ctx req where c: "c = (ctx, req)" by (cases c)
  obtain out trk1 where s1: "TunnelTracker_StartTunnel alloc launch trk ctx ident req = (out, trk1)"
    by (cases "TunnelTracker_StartTunnel alloc launch trk ctx ident req")
  obtain outs1 trk2 where s2: "StartTunnel_calls alloc launch trk1 ident cs = (outs1, trk2)"
    by (cases "StartTunnel_calls alloc launch trk1 ident cs")
  have outs: "outs = out # outs1" and t2: "trk2 = trk'"
    using Cons.prems(1) c s1 s2 by simp_all
  show ?case
  proof (cases "\<exists>ti. out = Returns (Inr ti)")
    case True
    then obtain ti where out: "out = Returns (Inr ti)" by blast
    from s1 out have "Tunnels trk1 ident = Some ti \<and> Lifecycle ti = Ready"
      using StartTunnel_success by blast
    then have "outs1 = replicate (length cs) (Returns (Inr ti))"
      using StartTunnel_calls_Ready [of trk1 ident ti alloc launch cs] s2 by simp
    then have "set (successes outs) \<subseteq> {ti}"
      using outs out by (auto simp: successes_replicate)
    then show ?thesis using Cons.prems(2,3) by blast
  next
    case False
    have "successes (out # outs1) = successes outs1"
    proof (cases out)
      case (Returns r)
      with False show ?thesis by (cases r) auto
    next
      case Waits
      then show ?thesis by simp
    qed
    then have "successes outs = successes outs1" using outs by simp
    then show ?thesis using Cons.IH [OF s2 [unfolded t2]] Cons.prems(2,3) by simp
  qed
qed

text \<open>
  Claim C2. When the registry entry of an identity is \<open>Ready\<close>, a call of
  \<open>StartTunnel\<close> with that identity returns that entry, with its local host and
  port, and leaves the tracker as it is, so no session is launched; the same holds for
  any run of calls, whatever their contexts and requests. And in any run of calls for one
  identity, from any tracker, all the calls that succeed return the same local port and
  host.
\<close>

theorem ready_tunnel_is_returned_as_it_is:
  "(Tunnels trk ident = Some ti \<and> Lifecycle ti = Ready \<longrightarrow>
      TunnelTracker_StartTunnel alloc launch trk ctx ident req = (Returns (Inr ti), trk)
      \<and> Launches (snd (TunnelTracker_StartTunnel alloc launch trk ctx ident req)) = Launches trk
      \<and> StartTunnel_calls alloc launch trk ident cs
           = (replicate (length cs) (Returns (Inr ti)), trk))
   \<and> (\<forall>a \<in> set (successes (fst (StartTunnel_calls alloc launch trk ident cs))).
       \<forall>b \<in> set (successes (fst (StartTunnel_calls alloc launch trk ident cs))).
         info_LocalPort a = info_LocalPort b \<and> info_LocalHost a = info_LocalHost b)"
proof -
  have "a = b"
    if "a \<in> set (successes (fst (StartTunnel_calls alloc launch trk ident cs)))"
      and "b \<in> set (successes (fst (StartTunnel_calls alloc launch trk ident cs)))" for a b
    using successes_agree [OF surjective_pairing that] .
  then show ?thesis
    by (auto simp: StartTunnel_Ready StartTunnel_calls_Ready)
qed

theorem ready_tunnel_is_returned_as_it_is_witness:
  "Tunnels t1_tracker ''t1'' = Some t1_ready \<and> Lifecycle t1_ready = Ready \<and>
   TunnelTracker_StartTunnel exhausted_alloc failing_launch t1_tracker background ''t1'' t1_request
     = (Returns (Inr t1_ready), t1_tracker) \<and>
   info_LocalPort t1_ready = 18123 \<and> info_LocalHost t1_ready = ''127.0.0.1'' \<and>
   map info_LocalPort (successes (fst (StartTunnel_calls scenario_alloc scenario_launch empty_tracker
      ''t1'' [(background, t1_request), (background, t1_request), (cancelled, t1_request)])))
     = [18123, 18123, 18123]"
proof -
  have e: "Tunnels t1_tracker ''t1'' = Some t1_ready \<and> Lifecycle t1_ready = Ready"
    by (simp add: t1_tracker_def t1_ready_def)
  have r: "map info_LocalPort (successes (fst (StartTunnel_calls scenario_alloc scenario_launch
      empty_tracker ''t1'' [(background, t1_request), (background, t1_request), (cancelled, t1_request)])))
     = [18123, 18123, 18123]"
    by (simp add: scenario_defs Let_def)
  show ?thesis
    using e r
      ready_tunnel_is_returned_as_it_is [of t1_tracker "''t1''" t1_ready exhausted_alloc
        failing_launch background t1_request "[]"]
    by (simp add: t1_ready_def)
qed

end
